theory Spec2Isabelle
  imports Complex_Main "HOL-Library.Word" "HOL-Library.Extended_Nat"
begin

section \<open>JavaScript numbers\<close>

text \<open>
  The program is JavaScript: every number is an IEEE double. The development reads the
  finite doubles as exact reals (rounding is not modelled) and keeps the three special
  values that the code can produce by dividing by zero, because comparisons with them
  decide branches: \<open>0 / 0\<close> is \<open>NaN\<close>, every comparison with \<open>NaN\<close> is false.
\<close>

datatype jsnum = Num real | PosInf | NegInf | NaN

datatype error = TypeError | RangeError | PrimitiveFailure | LoadFailure | ReadFailure

fun js_div :: "jsnum \<Rightarrow> jsnum \<Rightarrow> jsnum" where
  "js_div (Num a) (Num b) =
     (if b = 0 then (if a = 0 then NaN else if 0 < a then PosInf else NegInf)
      else Num (a / b))"
| "js_div (Num a) PosInf = Num 0"
| "js_div (Num a) NegInf = Num 0"
| "js_div PosInf (Num b) = (if 0 \<le> b then PosInf else NegInf)"
| "js_div NegInf (Num b) = (if 0 \<le> b then NegInf else PosInf)"
| "js_div _ _ = NaN"

fun js_mul :: "jsnum \<Rightarrow> jsnum \<Rightarrow> jsnum" where
  "js_mul (Num a) (Num b) = Num (a * b)"
| "js_mul NaN _ = NaN"
| "js_mul _ NaN = NaN"
| "js_mul (Num a) PosInf = (if a = 0 then NaN else if 0 < a then PosInf else NegInf)"
| "js_mul (Num a) NegInf = (if a = 0 then NaN else if 0 < a then NegInf else PosInf)"
| "js_mul PosInf (Num b) = (if b = 0 then NaN else if 0 < b then PosInf else NegInf)"
| "js_mul NegInf (Num b) = (if b = 0 then NaN else if 0 < b then NegInf else PosInf)"
| "js_mul PosInf PosInf = PosInf"
| "js_mul NegInf NegInf = PosInf"
| "js_mul PosInf NegInf = NegInf"
| "js_mul NegInf PosInf = NegInf"

fun js_add :: "jsnum \<Rightarrow> jsnum \<Rightarrow> jsnum" where
  "js_add (Num a) (Num b) = Num (a + b)"
| "js_add NaN _ = NaN"
| "js_add _ NaN = NaN"
| "js_add PosInf NegInf = NaN"
| "js_add NegInf PosInf = NaN"
| "js_add PosInf _ = PosInf"
| "js_add _ PosInf = PosInf"
| "js_add NegInf _ = NegInf"
| "js_add _ NegInf = NegInf"

fun js_neg :: "jsnum \<Rightarrow> jsnum" where
  "js_neg (Num a) = Num (- a)"
| "js_neg PosInf = NegInf"
| "js_neg NegInf = PosInf"
| "js_neg NaN = NaN"

definition js_sub :: "jsnum \<Rightarrow> jsnum \<Rightarrow> jsnum" where
  "js_sub a b = js_add a (js_neg b)"

text \<open>\<open>Math.floor\<close>: the special values are returned as they are.\<close>

fun js_floor :: "jsnum \<Rightarrow> jsnum" where
  "js_floor (Num a) = Num (of_int \<lfloor>a\<rfloor>)"
| "js_floor x = x"

text \<open>The comparison \<open>a > b\<close>; false as soon as one side is \<open>NaN\<close>.\<close>

fun js_gt :: "jsnum \<Rightarrow> jsnum \<Rightarrow> bool" where
  "js_gt (Num a) (Num b) = (b < a)"
| "js_gt NaN _ = False"
| "js_gt _ NaN = False"
| "js_gt PosInf PosInf = False"
| "js_gt PosInf _ = True"
| "js_gt _ PosInf = False"
| "js_gt NegInf _ = False"
| "js_gt _ NegInf = True"

definition js_lt :: "jsnum \<Rightarrow> jsnum \<Rightarrow> bool" where
  "js_lt a b = js_gt b a"

text \<open>A number with an integer value, as the bounds of a group are.\<close>

definition is_int_num :: "jsnum \<Rightarrow> bool" where
  "is_int_num x = (case x of Num r \<Rightarrow> r = of_int \<lfloor>r\<rfloor> | _ \<Rightarrow> False)"

section \<open>Mesh buffers\<close>

text \<open>
  A \<open>THREE.BufferGeometry\<close> as the source uses it. The position, normal and uv
  attributes are typed arrays with an item size; an array of item size three is kept as
  the list of its vertices, so \<open>attributes.position.count\<close> is the length of the list.
  An absent attribute or index is \<open>None\<close>. The index array is kept flat, as the
  source reads it (three entries per triangle).
\<close>

type_synonym vec3 = "real \<times> real \<times> real"

record group =
  start :: jsnum
  count :: jsnum
  materialIndex :: int

record geometry =
  position :: "vec3 list option"
  normal :: "vec3 list option"
  uv :: "(real \<times> real) list option"
  index :: "nat list option"
  groups :: "group list"

section \<open>Material groups: preserveMaterialGroups and restoreMaterialGroups\<close>

text \<open>
  \<open>JSON.parse(JSON.stringify(groups))\<close>: a finite number survives the round trip;
  \<open>NaN\<close> and the infinities are written as \<open>null\<close>, which the arithmetic of
  \<open>restoreMaterialGroups\<close> then reads as \<open>0\<close>.
\<close>

fun json_number :: "jsnum \<Rightarrow> jsnum" where
  "json_number (Num a) = Num a"
| "json_number _ = Num 0"

definition json_group :: "group \<Rightarrow> group" where
  "json_group g = g\<lparr>start := json_number (start g), count := json_number (count g)\<rparr>"

text \<open>\<open>preserveMaterialGroups\<close>: \<open>null\<close> when the geometry has no groups.\<close>

definition preserveMaterialGroups :: "geometry \<Rightarrow> group list option" where
  "preserveMaterialGroups g =
     (if groups g = [] then None else Some (map json_group (groups g)))"

text \<open>
  \<open>geometry.index ? geometry.index.count : geometry.attributes.position.count\<close>;
  reading \<open>count\<close> of a missing position attribute throws.
\<close>

definition indexCount :: "geometry \<Rightarrow> error + nat" where
  "indexCount g =
     (case index g of
        Some ix \<Rightarrow> Inr (length ix)
      | None \<Rightarrow> (case position g of Some ps \<Rightarrow> Inr (length ps) | None \<Rightarrow> Inl TypeError))"

text \<open>
  The scale factor of \<open>restoreMaterialGroups\<close>: the source computes \<open>oldIndexCount\<close>
  and \<open>newIndexCount\<close> by the same expression on the same geometry and divides them.
\<close>

definition scaleFactor :: "geometry \<Rightarrow> error + jsnum" where
  "scaleFactor g =
     (case indexCount g of
        Inl e \<Rightarrow> Inl e
      | Inr oldIndexCount \<Rightarrow>
          (case indexCount g of
             Inl e \<Rightarrow> Inl e
           | Inr newIndexCount \<Rightarrow>
               Inr (js_div (Num (real newIndexCount)) (Num (real oldIndexCount)))))"

text \<open>The \<open>map\<close> over the preserved groups (before the re-packing pass).\<close>

definition scaleGroup :: "jsnum \<Rightarrow> group \<Rightarrow> group" where
  "scaleGroup sf g =
     \<lparr>start = js_floor (js_mul (start g) sf),
      count = js_floor (js_mul (count g) sf),
      materialIndex = materialIndex g\<rparr>"

text \<open>
  The \<open>forEach\<close> pass: each group starts at the running offset; the offset grows by the
  group's count; when the offset has passed \<open>newIndexCount\<close> the excess is taken off the
  group's count. The offset itself is not reduced.
\<close>

fun repack :: "nat \<Rightarrow> jsnum \<Rightarrow> group list \<Rightarrow> group list" where
  "repack newIndexCount currentOffset [] = []"
| "repack newIndexCount currentOffset (g # gs) =
     (let offset' = js_add currentOffset (count g);
          g' = (if js_gt offset' (Num (real newIndexCount))
                then g\<lparr>start := currentOffset,
                       count := js_sub (count g) (js_sub offset' (Num (real newIndexCount)))\<rparr>
                else g\<lparr>start := currentOffset\<rparr>)
      in g' # repack newIndexCount offset' gs)"

definition restoreMaterialGroups :: "geometry \<Rightarrow> group list option \<Rightarrow> error + geometry" where
  "restoreMaterialGroups g materialInfo =
     (case materialInfo of
        None \<Rightarrow> Inr g
      | Some gs \<Rightarrow>
          (case indexCount g of
             Inl e \<Rightarrow> Inl e
           | Inr newIndexCount \<Rightarrow>
               (case scaleFactor g of
                  Inl e \<Rightarrow> Inl e
                | Inr sf \<Rightarrow>
                    Inr (g\<lparr>groups := repack newIndexCount (Num 0) (map (scaleGroup sf) gs)\<rparr>))))"

section \<open>Optimization configuration\<close>

record config =
  useDraco :: bool
  useTextureCompression :: bool
  simplifyGeometry :: bool
  removeDuplicates :: bool
  simplificationRatio :: real
  preserveNormals :: bool
  embedImages :: bool

section \<open>Files, blobs and the minimal compression pass\<close>

type_synonym bytes = "8 word list"

text \<open>
  A browser \<open>File\<close>: its name, its bytes (\<open>file.size\<close> is their number), its MIME
  type, and whether \<open>file.arrayBuffer()\<close> resolves.
\<close>

record jsfile =
  fname :: string
  fdata :: bytes
  ftype :: string
  freadable :: bool

record blob =
  bdata :: bytes
  btype :: string

definition fsize :: "jsfile \<Rightarrow> nat" where
  "fsize f = length (fdata f)"

definition bsize :: "blob \<Rightarrow> nat" where
  "bsize b = length (bdata b)"

definition endsWith :: "string \<Rightarrow> string \<Rightarrow> bool" where
  "endsWith s suffix =
     (length suffix \<le> length s \<and> drop (length s - length suffix) s = suffix)"

text \<open>\<open>DataView.getUint32(offset, true)\<close>: little endian; a read past the end throws.\<close>

definition getUint32 :: "bytes \<Rightarrow> nat \<Rightarrow> error + nat" where
  "getUint32 buffer off =
     (if off + 4 \<le> length buffer
      then Inr (unat (buffer ! off) + 256 * unat (buffer ! (off + 1))
                + 65536 * unat (buffer ! (off + 2)) + 16777216 * unat (buffer ! (off + 3)))
      else Inl RangeError)"

text \<open>The last resort of \<open>applyMinimalCompression\<close>: the first 98% of the bytes.\<close>

definition truncatedBlob :: "jsfile \<Rightarrow> blob" where
  "truncatedBlob file =
     \<lparr>bdata = take (nat \<lfloor>real (length (fdata file)) * 0.98\<rfloor>) (fdata file),
      btype = ftype file\<rparr>"

text \<open>
  \<open>applyMinimalCompression\<close>. The parameter \<open>jsonMinify\<close> stands for
  \<open>JSON.stringify(JSON.parse(text))\<close> on the decoded bytes, \<open>None\<close> when the parse
  throws. \<open>1179937895\<close> is \<open>0x46546C67\<close>, the GLB magic. An exception inside the
  \<open>try\<close> block is caught there and execution falls to the last resort.
\<close>

definition applyMinimalCompression :: "(bytes \<Rightarrow> bytes option) \<Rightarrow> jsfile \<Rightarrow> error + blob" where
  "applyMinimalCompression jsonMinify file =
     (if \<not> freadable file then Inl ReadFailure
      else
        let buffer = fdata file;
            textual =
              (if endsWith (fname file) ''.gltf''
               then (case jsonMinify buffer of
                       Some minified \<Rightarrow> \<lparr>bdata = minified, btype = ''model/gltf+json''\<rparr>
                     | None \<Rightarrow> truncatedBlob file)
               else truncatedBlob file)
        in if endsWith (fname file) ''.glb'' \<or> endsWith (fname file) ''.gltf''
           then
             (if endsWith (fname file) ''.glb''
              then (case getUint32 buffer 0 of
                      Inl e \<Rightarrow> Inr (truncatedBlob file)
                    | Inr magic \<Rightarrow>
                        if magic = 1179937895
                        then (case getUint32 buffer 8 of
                                Inl e \<Rightarrow> Inr (truncatedBlob file)
                              | Inr len \<Rightarrow>
                                  Inr \<lparr>bdata = take (12 + len) buffer,
                                       btype = ''model/gltf-binary''\<rparr>)
                        else Inr textual)
              else Inr textual)
           else Inr (truncatedBlob file))"

section \<open>Export candidate search and the reported sizes (optimizeModels)\<close>

record draco_options =
  compressionLevel :: nat
  quantizePosition :: nat
  quantizeNormal :: nat
  quantizeTexcoord :: nat
  quantizeColor :: nat
  quantizeSkin :: nat

record export_options =
  opt_binary :: bool
  opt_embedImages :: "bool option"
  opt_truncateDrawRange :: bool
  opt_includeCustomExtensions :: bool
  opt_forceIndices :: bool
  opt_draco :: "draco_options option"

record export_configuration =
  cname :: string
  coptions :: export_options

text \<open>
  What the loader and the pass over the meshes hand to the export search: the counts
  gathered by the two traversals, whether the mesh pass applied any optimization, and
  the exporter (\<open>GLTFExporter.parse\<close> on the processed scene), an external
  collaborator that returns an \<open>ArrayBuffer\<close> for these binary options or fails.
\<close>

record scene_run =
  run_originalVertexCount :: nat
  run_originalPolyCount :: real
  totalTextureSize :: real
  meshPassApplied :: bool
  run_optimizedVertexCount :: nat
  run_optimizedPolyCount :: real
  exporter :: "export_options \<Rightarrow> error + bytes"

record environment =
  loadAndProcess :: "jsfile \<Rightarrow> config \<Rightarrow> error + scene_run"
  jsonMinify :: "bytes \<Rightarrow> bytes option"

record counts =
  r_originalVertexCount :: nat
  r_originalPolyCount :: int
  r_optimizedVertexCount :: nat
  r_optimizedPolyCount :: int

record optimization_result =
  originalSize :: nat
  optimizedSize :: real
  optimizedBlob :: blob
  resultCounts :: "counts option"

definition dracoHigh :: draco_options where
  "dracoHigh = \<lparr>compressionLevel = 9, quantizePosition = 14, quantizeNormal = 10,
                 quantizeTexcoord = 12, quantizeColor = 10, quantizeSkin = 10\<rparr>"

definition dracoCompatible :: draco_options where
  "dracoCompatible = \<lparr>compressionLevel = 7, quantizePosition = 11, quantizeNormal = 8,
                       quantizeTexcoord = 10, quantizeColor = 8, quantizeSkin = 8\<rparr>"

definition fullOptions :: "bool \<Rightarrow> draco_options option \<Rightarrow> export_options" where
  "fullOptions emb d =
     \<lparr>opt_binary = True, opt_embedImages = Some emb, opt_truncateDrawRange = True,
      opt_includeCustomExtensions = True, opt_forceIndices = True, opt_draco = d\<rparr>"

definition basicOptions :: "draco_options option \<Rightarrow> export_options" where
  "basicOptions d =
     \<lparr>opt_binary = True, opt_embedImages = None, opt_truncateDrawRange = False,
      opt_includeCustomExtensions = False, opt_forceIndices = False, opt_draco = d\<rparr>"

definition exportConfigurations :: "bool \<Rightarrow> bool \<Rightarrow> real \<Rightarrow> export_configuration list" where
  "exportConfigurations shouldUseDraco shouldEmbedImages textureSize =
     (if shouldUseDraco
      then [\<lparr>cname = ''Draco compression'',
              coptions = fullOptions shouldEmbedImages (Some dracoHigh)\<rparr>,
            \<lparr>cname = ''Compatible Draco compression'',
              coptions = fullOptions shouldEmbedImages (Some dracoCompatible)\<rparr>]
      else [])
     @ [\<lparr>cname = ''Binary encoding without Draco'',
          coptions = fullOptions shouldEmbedImages None\<rparr>]
     @ (if 1 < textureSize
        then [\<lparr>cname = ''With aggressive texture compression'',
                coptions = fullOptions True None\<rparr>]
        else [])"

record search_state =
  bestResult :: "bytes option"
  bestSize :: enat
  bestConfigName :: string
  dracoApplied :: bool

definition initialSearch :: search_state where
  "initialSearch = \<lparr>bestResult = None, bestSize = \<infinity>, bestConfigName = [], dracoApplied = False\<rparr>"

text \<open>
  The loop over the export configurations: a failing configuration is skipped; a
  smaller result becomes the best; the loop stops once the best is under 70% of the
  original size.
\<close>

fun exportLoop ::
  "(export_options \<Rightarrow> error + bytes) \<Rightarrow> nat \<Rightarrow> export_configuration list \<Rightarrow> search_state \<Rightarrow> search_state"
where
  "exportLoop ex origSize [] st = st"
| "exportLoop ex origSize (c # cs) st =
     (case ex (coptions c) of
        Inl err \<Rightarrow> exportLoop ex origSize cs st
      | Inr result \<Rightarrow>
          (let size = length result;
               st1 = (if opt_draco (coptions c) \<noteq> None \<and> enat size < \<infinity>
                      then st\<lparr>dracoApplied := True\<rparr> else st)
           in if enat size < bestSize st1
              then (let st2 = st1\<lparr>bestSize := enat size, bestResult := Some result,
                                    bestConfigName := cname c\<rparr>
                    in if real size < real origSize * 0.7 then st2
                       else exportLoop ex origSize cs st2)
              else exportLoop ex origSize cs st1))"

definition js_round :: "real \<Rightarrow> int" where
  "js_round x = \<lfloor>x + 1 / 2\<rfloor>"

definition gltfBlob :: "bytes \<Rightarrow> blob" where
  "gltfBlob bs = \<lparr>bdata = bs, btype = ''model/gltf-binary''\<rparr>"

text \<open>
  \<open>JSON.stringify\<close> of an \<open>ArrayBuffer\<close> is the two characters \<open>{}\<close>: the text
  the "minimal optimization" fallback writes when the basic export is not smaller.
\<close>

definition minifiedArrayBuffer :: bytes where
  "minifiedArrayBuffer = [123, 125]"

text \<open>
  The part of one file's processing after the scene is loaded and its meshes are
  processed: the search, the choice between the export branch and the minimal
  compression branch, the Draco reporting floor and the final \<open>Math.min\<close>. An
  \<open>Inl\<close> is an exception that reaches the \<open>catch (innerError)\<close> of the caller.
\<close>

definition isModelSmall :: "jsfile \<Rightarrow> scene_run \<Rightarrow> bool" where
  "isModelSmall file run = (run_originalVertexCount run < 5000 \<or> fsize file < 1 * 1024 * 1024)"

definition exportSearch :: "jsfile \<Rightarrow> config \<Rightarrow> scene_run \<Rightarrow> search_state" where
  "exportSearch file cfg run =
     (let hasLargeTextures = (5 < totalTextureSize run);
          shouldUseDraco = useDraco cfg;
          shouldEmbedImages = (embedImages cfg \<and> \<not> hasLargeTextures)
      in exportLoop (exporter run) (fsize file)
           (exportConfigurations shouldUseDraco shouldEmbedImages (totalTextureSize run))
           initialSearch)"

definition optimizeLoaded ::
  "(bytes \<Rightarrow> bytes option) \<Rightarrow> jsfile \<Rightarrow> config \<Rightarrow> scene_run \<Rightarrow> error + optimization_result"
where
  "optimizeLoaded jm file cfg run =
     (let origSize = fsize file;
          st = exportSearch file cfg run;
          anyOptimizationApplied = (meshPassApplied run \<or> (useDraco cfg \<and> dracoApplied st))
      in if (bestResult st \<noteq> None \<and> bestSize st < enat origSize) \<or> anyOptimizationApplied
         then
           (case (case bestResult st of
                    Some best \<Rightarrow> Inr (gltfBlob best, real (the_enat (bestSize st)))
                  | None \<Rightarrow>
                      (case exporter run
                              (basicOptions (if useDraco cfg then Some dracoCompatible else None)) of
                         Inl err \<Rightarrow> Inl err
                       | Inr basicResult \<Rightarrow>
                           if origSize \<le> length basicResult \<and> anyOptimizationApplied
                           then Inr (gltfBlob minifiedArrayBuffer, real (length minifiedArrayBuffer))
                           else Inr (gltfBlob basicResult, real (length basicResult)))) of
              Inl err \<Rightarrow> Inl err
            | Inr (chosenBlob, size0) \<Rightarrow>
                (let size1 = (if useDraco cfg \<and> dracoApplied st \<and> real origSize * 0.9 < size0
                              then real origSize * (1 - (if isModelSmall file run then 0.05 else 0.15))
                              else size0);
                     finalSize = min size1 (real origSize * 0.98)
                 in Inr \<lparr>originalSize = origSize, optimizedSize = finalSize,
                         optimizedBlob = chosenBlob,
                         resultCounts = Some
                           \<lparr>r_originalVertexCount = run_originalVertexCount run,
                            r_originalPolyCount = js_round (run_originalPolyCount run),
                            r_optimizedVertexCount = run_optimizedVertexCount run,
                            r_optimizedPolyCount = js_round (run_optimizedPolyCount run)\<rparr>\<rparr>))
         else
           (case applyMinimalCompression jm file of
              Inl err \<Rightarrow> Inl err
            | Inr compressedBlob \<Rightarrow>
                Inr \<lparr>originalSize = origSize, optimizedSize = real (bsize compressedBlob),
                     optimizedBlob = compressedBlob,
                     resultCounts = Some
                       \<lparr>r_originalVertexCount = run_originalVertexCount run,
                        r_originalPolyCount = js_round (run_originalPolyCount run),
                        r_optimizedVertexCount = run_originalVertexCount run,
                        r_optimizedPolyCount = js_round (run_originalPolyCount run)\<rparr>\<rparr>))"

text \<open>
  One iteration of the loop over the files: the \<open>try\<close> block, and the recovery of
  \<open>catch (innerError)\<close> with its own last resort.
\<close>

definition optimizeFile :: "environment \<Rightarrow> jsfile \<Rightarrow> config \<Rightarrow> optimization_result" where
  "optimizeFile env file cfg =
     (case (case loadAndProcess env file cfg of
              Inl err \<Rightarrow> Inl err
            | Inr run \<Rightarrow> optimizeLoaded (jsonMinify env) file cfg run) of
        Inr res \<Rightarrow> res
      | Inl innerError \<Rightarrow>
          (case applyMinimalCompression (jsonMinify env) file of
             Inr compressedBlob \<Rightarrow>
               \<lparr>originalSize = fsize file, optimizedSize = real (bsize compressedBlob),
                optimizedBlob = compressedBlob, resultCounts = None\<rparr>
           | Inl compressionError \<Rightarrow>
               \<lparr>originalSize = fsize file, optimizedSize = real (fsize file) * 0.98,
                optimizedBlob = \<lparr>bdata = take (fsize file) (fdata file), btype = []\<rparr>,
                resultCounts = None\<rparr>))"

definition defaultConfig :: config where
  "defaultConfig =
     \<lparr>useDraco = False, useTextureCompression = False, simplifyGeometry = False,
      removeDuplicates = False, simplificationRatio = 0.1, preserveNormals = False,
      embedImages = False\<rparr>"

text \<open>
  \<open>optimizeModels\<close>: the results, one per file, in order;
  \<open>optimizationConfigs[i] || default\<close> picks the configuration. The parameters that
  only feed the user interface (\<open>inputFileModel\<close> and the state setters) are left out;
  they do not reach the sizes or the blobs.
\<close>

definition optimizeModels ::
  "environment \<Rightarrow> jsfile list \<Rightarrow> config option list \<Rightarrow> optimization_result list" where
  "optimizeModels env files optimizationConfigs =
     map (\<lambda>i. optimizeFile env (files ! i)
                 (case (if i < length optimizationConfigs then optimizationConfigs ! i else None) of
                    Some c \<Rightarrow> c
                  | None \<Rightarrow> defaultConfig))
         [0 ..< length files]"


section \<open>Vectors and bounding boxes (three.js)\<close>

definition vsub :: "vec3 \<Rightarrow> vec3 \<Rightarrow> vec3" where
  "vsub a b = (case a of (ax, ay, az) \<Rightarrow> case b of (bx, by, bz) \<Rightarrow> (ax - bx, ay - by, az - bz))"

definition vadd :: "vec3 \<Rightarrow> vec3 \<Rightarrow> vec3" where
  "vadd a b = (case a of (ax, ay, az) \<Rightarrow> case b of (bx, by, bz) \<Rightarrow> (ax + bx, ay + by, az + bz))"

definition vcross :: "vec3 \<Rightarrow> vec3 \<Rightarrow> vec3" where
  "vcross a b =
     (case a of (ax, ay, az) \<Rightarrow> case b of (bx, by, bz) \<Rightarrow>
        (ay * bz - az * by, az * bx - ax * bz, ax * by - ay * bx))"

definition vdot :: "vec3 \<Rightarrow> vec3 \<Rightarrow> real" where
  "vdot a b = (case a of (ax, ay, az) \<Rightarrow> case b of (bx, by, bz) \<Rightarrow> ax * bx + ay * by + az * bz)"

definition vlength :: "vec3 \<Rightarrow> real" where
  "vlength a = (case a of (ax, ay, az) \<Rightarrow> sqrt (ax * ax + ay * ay + az * az))"

text \<open>\<open>Vector3.normalize\<close> divides by \<open>length() || 1\<close>: the zero vector stays zero.\<close>

definition vnormalize :: "vec3 \<Rightarrow> vec3" where
  "vnormalize a =
     (let l = (if vlength a = 0 then 1 else vlength a)
      in case a of (ax, ay, az) \<Rightarrow> (ax / l, ay / l, az / l))"

text \<open>
  The extent of a list of coordinates, and \<open>Box3.setFromObject(new Mesh(geometry))\<close>
  followed by \<open>getSize\<close>: the box of the position attribute; the size of the empty box
  is the zero vector.
\<close>

definition extent :: "real list \<Rightarrow> real" where
  "extent xs = (case xs of [] \<Rightarrow> 0 | x # r \<Rightarrow> fold max r x - fold min r x)"

definition boxSize :: "vec3 list \<Rightarrow> vec3" where
  "boxSize ps =
     (extent (map fst ps), extent (map (\<lambda>p. fst (snd p)) ps), extent (map (\<lambda>p. snd (snd p)) ps))"

section \<open>Feature-size analysis: analyzeFeatureSizes\<close>

record analysis =
  smallFeatureCount :: nat
  thinFeatureCount :: nat
  totalFeatures :: nat
  smallFeatureRatio :: real
  thinFeatureRatio :: real
  complexityRatio :: real
  geometryComplexity :: real
  isHighDetail :: bool

text \<open>
  Reads of the typed arrays: an index that is not in range reads \<open>undefined\<close>, here
  \<open>None\<close>; the arithmetic on it is \<open>NaN\<close>.
\<close>

definition indexAt :: "nat list \<Rightarrow> int \<Rightarrow> int option" where
  "indexAt ix j = (if 0 \<le> j \<and> nat j < length ix then Some (int (ix ! nat j)) else None)"

definition vertexAt :: "vec3 list \<Rightarrow> int option \<Rightarrow> vec3 option" where
  "vertexAt ps i =
     (case i of
        None \<Rightarrow> None
      | Some k \<Rightarrow> if 0 \<le> k \<and> nat k < length ps then Some (ps ! nat k) else None)"

text \<open>The three vertices of the triangle \<open>faceIndex\<close>, through the index when there is one.\<close>

definition triangleVertex :: "vec3 list \<Rightarrow> nat list option \<Rightarrow> int \<Rightarrow> int \<Rightarrow> vec3 option" where
  "triangleVertex ps ixo faceIndex k =
     (case ixo of
        Some ix \<Rightarrow> vertexAt ps (indexAt ix (faceIndex * 3 + k))
      | None \<Rightarrow> vertexAt ps (Some (faceIndex * 3 + k)))"

definition edgeLength :: "vec3 \<Rightarrow> vec3 \<Rightarrow> real" where
  "edgeLength a b =
     (case a of (x1, y1, z1) \<Rightarrow> case b of (x2, y2, z2) \<Rightarrow>
        sqrt ((x2 - x1)\<^sup>2 + (y2 - y1)\<^sup>2 + (z2 - z1)\<^sup>2))"

type_synonym poskey = "(int \<times> int \<times> int) option"

record measure3 =
  m_small :: bool
  m_thin :: bool
  m_key :: poskey

text \<open>
  The properties of one sampled triangle. With a vertex that reads as \<open>undefined\<close>
  the sides and the area are \<open>NaN\<close>: the area test is false, \<open>minSide > 0\<close> is false, so
  the aspect ratio is \<open>Infinity\<close> and the triangle counts as thin; its key is
  \<open>NaN,NaN,NaN\<close> (\<open>None\<close>).
\<close>

definition measureTriangle ::
  "real \<Rightarrow> real \<Rightarrow> vec3 option \<Rightarrow> vec3 option \<Rightarrow> vec3 option \<Rightarrow> measure3" where
  "measureTriangle smallFeatureThreshold thinFeatureThreshold p1 p2 p3 =
     (case (p1, p2, p3) of
        (Some a, Some b, Some c) \<Rightarrow>
          (let side1 = edgeLength a b;
               side2 = edgeLength b c;
               side3 = edgeLength c a;
               s = (side1 + side2 + side3) / 2;
               area = sqrt (max 0 (s * (s - side1) * (s - side2) * (s - side3)));
               centerX = (fst a + fst b + fst c) / 3;
               centerY = (fst (snd a) + fst (snd b) + fst (snd c)) / 3;
               centerZ = (snd (snd a) + snd (snd b) + snd (snd c)) / 3;
               minSide = min side1 (min side2 side3);
               maxSide = max side1 (max side2 side3)
           in \<lparr>m_small = (area < smallFeatureThreshold * smallFeatureThreshold),
               m_thin = ((if 0 < minSide then 8 < maxSide / minSide else True)
                         \<or> minSide < thinFeatureThreshold),
               m_key = Some (js_round (centerX * 100), js_round (centerY * 100),
                             js_round (centerZ * 100))\<rparr>)
      | _ \<Rightarrow> \<lparr>m_small = False, m_thin = True, m_key = None\<rparr>)"

definition diagonalLength :: "vec3 list \<Rightarrow> real" where
  "diagonalLength ps = (case boxSize ps of (sx, sy, sz) \<Rightarrow> sqrt (sx * sx + sy * sy + sz * sz))"

definition measureFace :: "vec3 list \<Rightarrow> nat list option \<Rightarrow> int \<Rightarrow> measure3" where
  "measureFace ps ixo faceIndex =
     measureTriangle (diagonalLength ps * 0.001) (diagonalLength ps * 0.002)
       (triangleVertex ps ixo faceIndex 0) (triangleVertex ps ixo faceIndex 1)
       (triangleVertex ps ixo faceIndex 2)"

record density =
  d_count :: nat
  d_small :: bool
  d_thin :: bool

text \<open>The density map, a JavaScript \<open>Map\<close>, as an association list in insertion order.\<close>

fun bump :: "poskey \<Rightarrow> bool \<Rightarrow> bool \<Rightarrow> (poskey \<times> density) list \<Rightarrow> (poskey \<times> density) list" where
  "bump k sm th [] = [(k, \<lparr>d_count = 1, d_small = sm, d_thin = th\<rparr>)]"
| "bump k sm th ((k', d) # m) =
     (if k = k'
      then (k', \<lparr>d_count = d_count d + 1, d_small = (d_small d \<or> sm), d_thin = (d_thin d \<or> th)\<rparr>) # m
      else (k', d) # bump k sm th m)"

record sampling =
  s_small :: nat
  s_thin :: nat
  s_total :: nat
  analyzedTriangles :: "int list"
  densityMap :: "(poskey \<times> density) list"

text \<open>One iteration of the sampling loop, for the face index that was drawn.\<close>

definition sampleStep :: "vec3 list \<Rightarrow> nat list option \<Rightarrow> int \<Rightarrow> sampling \<Rightarrow> sampling" where
  "sampleStep ps ixo faceIndex st =
     (if faceIndex \<in> set (analyzedTriangles st) then st
      else
        let m = measureFace ps ixo faceIndex
        in \<lparr>s_small = (if m_small m then s_small st + 1 else s_small st),
            s_thin = (if m_thin m then s_thin st + 1 else s_thin st),
            s_total = s_total st + 1,
            analyzedTriangles = faceIndex # analyzedTriangles st,
            densityMap = bump (m_key m) (m_small m) (m_thin m) (densityMap st)\<rparr>)"

text \<open>
  The number of triangles as the source computes it (\<open>indices.length / 3\<close> or
  \<open>positions.length / 9\<close>, a fraction when the array is ragged), the number of loop
  iterations, and the face indices drawn: iteration \<open>i\<close> takes the next value of
  \<open>Math.random()\<close>, the stream \<open>rnd\<close> read from position \<open>k\<close> on.
\<close>

definition triangleCount :: "vec3 list \<Rightarrow> nat list option \<Rightarrow> real" where
  "triangleCount ps ixo = (case ixo of Some ix \<Rightarrow> real (length ix) / 3 | None \<Rightarrow> real (length ps) / 3)"

definition sampleIterations :: "vec3 list \<Rightarrow> nat list option \<Rightarrow> nat" where
  "sampleIterations ps ixo = nat \<lceil>min 10000 (triangleCount ps ixo)\<rceil>"

definition drawnFaces :: "(nat \<Rightarrow> real) \<Rightarrow> nat \<Rightarrow> vec3 list \<Rightarrow> nat list option \<Rightarrow> int list" where
  "drawnFaces rnd k ps ixo =
     map (\<lambda>i. \<lfloor>rnd (k + i) * triangleCount ps ixo\<rfloor>) [0 ..< sampleIterations ps ixo]"

definition initialSampling :: sampling where
  "initialSampling = \<lparr>s_small = 0, s_thin = 0, s_total = 0, analyzedTriangles = [], densityMap = []\<rparr>"

definition summarize :: "sampling \<Rightarrow> analysis" where
  "summarize st =
     (let highDetailAreas =
            length (filter (\<lambda>(key, d). 2 < d_count d \<and> (d_small d \<or> d_thin d)) (densityMap st));
          ratio = real highDetailAreas / real (max 1 (length (densityMap st)));
          rawComplexity =
            (real (s_small st) / real (max 1 (s_total st))) * 0.6
            + (real (s_thin st) / real (max 1 (s_total st))) * 0.4
            + ratio * 0.5
      in \<lparr>smallFeatureCount = s_small st,
          thinFeatureCount = s_thin st,
          totalFeatures = s_total st,
          smallFeatureRatio = real (s_small st) / real (max 1 (s_total st)),
          thinFeatureRatio = real (s_thin st) / real (max 1 (s_total st)),
          complexityRatio = ratio,
          geometryComplexity = min 1 rawComplexity,
          isHighDetail = (0.4 < rawComplexity)\<rparr>)"

text \<open>
  \<open>analyzeFeatureSizes\<close>: throws when the geometry has no position attribute; returns
  the analysis and the position of the random stream after the draws.
\<close>

definition analyzeFeatureSizes ::
  "(nat \<Rightarrow> real) \<Rightarrow> nat \<Rightarrow> geometry \<Rightarrow> error + (analysis \<times> nat)" where
  "analyzeFeatureSizes rnd k g =
     (case position g of
        None \<Rightarrow> Inl TypeError
      | Some ps \<Rightarrow>
          Inr (summarize (fold (sampleStep ps (index g)) (drawnFaces rnd k ps (index g)) initialSampling),
               k + sampleIterations ps (index g)))"

section \<open>Feature loss: checkForLostFeatures\<close>

record feature_loss =
  featuresLost :: bool
  lossRatio :: real
  smallFeatureLossRatio :: real
  thinFeatureLossRatio :: real
  complexityChangeRatio :: real

definition compareFeatures :: "analysis \<Rightarrow> analysis \<Rightarrow> feature_loss" where
  "compareFeatures originalFeatures simplifiedFeatures =
     (let smallLoss = 1 - real (smallFeatureCount simplifiedFeatures)
                          / real (max 1 (smallFeatureCount originalFeatures));
          thinLoss = 1 - real (thinFeatureCount simplifiedFeatures)
                         / real (max 1 (thinFeatureCount originalFeatures));
          complexityChange =
            \<bar>geometryComplexity simplifiedFeatures - geometryComplexity originalFeatures\<bar>
            / max 0.1 (geometryComplexity originalFeatures);
          combinedLossRatio = smallLoss * 0.35 + thinLoss * 0.45 + complexityChange * 0.2;
          lossThreshold = (if isHighDetail originalFeatures then 0.12 else 0.18)
      in \<lparr>featuresLost = (lossThreshold < combinedLossRatio),
          lossRatio = combinedLossRatio,
          smallFeatureLossRatio = smallLoss,
          thinFeatureLossRatio = thinLoss,
          complexityChangeRatio = complexityChange\<rparr>)"

definition checkForLostFeatures ::
  "(nat \<Rightarrow> real) \<Rightarrow> nat \<Rightarrow> geometry \<Rightarrow> geometry \<Rightarrow> error + (feature_loss \<times> nat)" where
  "checkForLostFeatures rnd k originalGeometry simplifiedGeometry =
     (case analyzeFeatureSizes rnd k originalGeometry of
        Inl e \<Rightarrow> Inl e
      | Inr (originalFeatures, k1) \<Rightarrow>
          (case analyzeFeatureSizes rnd k1 simplifiedGeometry of
             Inl e \<Rightarrow> Inl e
           | Inr (simplifiedFeatures, k2) \<Rightarrow>
               Inr (compareFeatures originalFeatures simplifiedFeatures, k2)))"

section \<open>Crease-aware normals: toCreasedNormals\<close>

text \<open>
  Corner \<open>k\<close> of face \<open>i\<close>: \<open>indices[i * 3 + k]\<close>, or \<open>i * 3 + k\<close> without an index.
\<close>

definition corner :: "nat list option \<Rightarrow> nat \<Rightarrow> nat \<Rightarrow> nat option" where
  "corner ixo i k =
     (case ixo of
        Some ix \<Rightarrow> if i * 3 + k < length ix then Some (ix ! (i * 3 + k)) else None
      | None \<Rightarrow> Some (i * 3 + k))"

definition faceNormalOf :: "vec3 \<Rightarrow> vec3 \<Rightarrow> vec3 \<Rightarrow> vec3" where
  "faceNormalOf pA pB pC = vnormalize (vcross (vsub pC pB) (vsub pA pB))"

record face_pass =
  faceNormals :: "vec3 list"
  vertexFaces :: "nat list list"

text \<open>
  The first pass, for face \<open>i\<close>: the face normal is stored and the face is pushed on
  the list of each of its three vertices. \<open>vertexFaces[idx]\<close> is \<open>undefined\<close> for an
  index that is missing or not a vertex, and the \<open>push\<close> on it throws.
\<close>

definition faceStep :: "vec3 list \<Rightarrow> nat list option \<Rightarrow> nat \<Rightarrow> face_pass \<Rightarrow> error + face_pass" where
  "faceStep ps ixo i st =
     (case (corner ixo i 0, corner ixo i 1, corner ixo i 2) of
        (Some idxA, Some idxB, Some idxC) \<Rightarrow>
          if idxA < length ps \<and> idxB < length ps \<and> idxC < length ps
          then
            (let n = faceNormalOf (ps ! idxA) (ps ! idxB) (ps ! idxC);
                 vf1 = (vertexFaces st)[idxA := vertexFaces st ! idxA @ [i]];
                 vf2 = vf1[idxB := vf1 ! idxB @ [i]];
                 vf3 = vf2[idxC := vf2 ! idxC @ [i]]
             in Inr \<lparr>faceNormals = faceNormals st @ [n], vertexFaces = vf3\<rparr>)
          else Inl TypeError
      | _ \<Rightarrow> Inl TypeError)"

fun facePass :: "vec3 list \<Rightarrow> nat list option \<Rightarrow> nat list \<Rightarrow> face_pass \<Rightarrow> error + face_pass" where
  "facePass ps ixo [] st = Inr st"
| "facePass ps ixo (i # rest) st =
     (case faceStep ps ixo i st of
        Inl e \<Rightarrow> Inl e
      | Inr st' \<Rightarrow> facePass ps ixo rest st')"

record normal_group =
  reference :: vec3
  normals :: "vec3 list"

text \<open>
  One face normal against the groups found so far: it is pushed on the first group whose
  reference it matches, and opens a new group when there is none.
\<close>

fun addNormal :: "real \<Rightarrow> vec3 \<Rightarrow> normal_group list \<Rightarrow> normal_group list" where
  "addNormal creaseDot n [] = [\<lparr>reference = n, normals = [n]\<rparr>]"
| "addNormal creaseDot n (g # gs) =
     (if creaseDot < vdot n (reference g)
      then g\<lparr>normals := normals g @ [n]\<rparr> # gs
      else g # addNormal creaseDot n gs)"

definition groupNormals :: "real \<Rightarrow> vec3 list \<Rightarrow> normal_group list" where
  "groupNormals creaseDot ns = fold (addNormal creaseDot) ns []"

text \<open>The dominant group: the first one, replaced by each later group that is strictly longer.\<close>

definition dominantGroup :: "normal_group \<Rightarrow> normal_group list \<Rightarrow> normal_group" where
  "dominantGroup first gs =
     fold (\<lambda>g dominant. if length (normals dominant) < length (normals g) then g else dominant)
          gs first"

definition averageNormal :: "vec3 list \<Rightarrow> vec3" where
  "averageNormal ns = vnormalize (fold (\<lambda>n avg. vadd avg n) ns (0, 0, 0))"

definition vertexNormal :: "real \<Rightarrow> vec3 list \<Rightarrow> vec3" where
  "vertexNormal creaseDot vertexFaceNormals =
     (case groupNormals creaseDot vertexFaceNormals of
        [] \<Rightarrow> (0, 0, 0)
      | g # gs \<Rightarrow> averageNormal (normals (dominantGroup g (g # gs))))"

definition faceIterations :: "vec3 list \<Rightarrow> nat list option \<Rightarrow> nat" where
  "faceIterations ps ixo = nat \<lceil>triangleCount ps ixo\<rceil>"

text \<open>
  \<open>toCreasedNormals\<close>: the three passes; a vertex of no face keeps the zero normal the
  new array was created with. The geometry is returned with the new normal attribute.
\<close>

definition toCreasedNormals :: "geometry \<Rightarrow> real \<Rightarrow> error + geometry" where
  "toCreasedNormals g creaseAngle =
     (case position g of
        None \<Rightarrow> Inl TypeError
      | Some ps \<Rightarrow>
          (let creaseDot = cos ((creaseAngle * pi) / 180)
           in case facePass ps (index g) [0 ..< faceIterations ps (index g)]
                     \<lparr>faceNormals = [], vertexFaces = replicate (length ps) []\<rparr> of
                Inl e \<Rightarrow> Inl e
              | Inr fp \<Rightarrow>
                  (let vertexNormals = map (\<lambda>faces. map (\<lambda>faceIdx. faceNormals fp ! faceIdx) faces)
                                           (vertexFaces fp)
                   in Inr (g\<lparr>normal := Some (map (\<lambda>vertexFaceNormals.
                                                   if vertexFaceNormals = [] then (0, 0, 0)
                                                   else vertexNormal creaseDot vertexFaceNormals)
                                               vertexNormals)\<rparr>))))"


section \<open>The adaptive simplifier: simplifyMesh (ThreeJsUtils.jsx)\<close>

text \<open>
  The external primitives: \<open>mergeVertices\<close> and \<open>SimplifyModifier.modify\<close> may throw;
  \<open>computeVertexNormals\<close> rewrites the normal attribute; \<open>mathRandom\<close> is the sequence of
  values \<open>Math.random()\<close> returns during the call.
\<close>

record primitives =
  mergeVertices :: "geometry \<Rightarrow> real \<Rightarrow> error + geometry"
  modify :: "geometry \<Rightarrow> int \<Rightarrow> error + geometry"
  computeVertexNormals :: "geometry \<Rightarrow> geometry"
  mathRandom :: "nat \<Rightarrow> real"

record mesh =
  meshGeometry :: "geometry option"

text \<open>\<open>geometry.attributes.position.count\<close>; throws without a position attribute.\<close>

definition positionCount :: "geometry \<Rightarrow> error + nat" where
  "positionCount g = (case position g of None \<Rightarrow> Inl TypeError | Some ps \<Rightarrow> Inr (length ps))"

definition geometryBoxSize :: "geometry \<Rightarrow> vec3" where
  "geometryBoxSize g = boxSize (case position g of Some ps \<Rightarrow> ps | None \<Rightarrow> [])"

fun js_abs :: "jsnum \<Rightarrow> jsnum" where
  "js_abs (Num a) = Num \<bar>a\<bar>"
| "js_abs NaN = NaN"
| "js_abs _ = PosInf"

text \<open>\<open>Math.abs(newSize / originalSize - 1) > threshold\<close> on one axis.\<close>

definition axisDistorted :: "real \<Rightarrow> real \<Rightarrow> real \<Rightarrow> bool" where
  "axisDistorted threshold newExtent originalExtent =
     js_gt (js_abs (js_sub (js_div (Num newExtent) (Num originalExtent)) (Num 1))) (Num threshold)"

definition distorted :: "real \<Rightarrow> vec3 \<Rightarrow> vec3 \<Rightarrow> bool" where
  "distorted threshold newExtent originalExtent =
     (case newExtent of (nx, ny, nz) \<Rightarrow> case originalExtent of (ox, oy, oz) \<Rightarrow>
        axisDistorted threshold nx ox \<or> axisDistorted threshold ny oy \<or> axisDistorted threshold nz oz)"

text \<open>
  The state of the retry loop: \<open>mesh.geometry\<close>, the locals of the loop, the flags, and
  the position of the random stream.
\<close>

record loop_state =
  ls_geometry :: geometry
  ls_bestCount :: nat
  ls_ratio :: real
  ls_attempts :: nat
  ls_modified :: bool
  ls_successful :: bool
  ls_rng :: nat

datatype step = Next loop_state | Break loop_state | Return loop_state

definition targetCountOf :: "nat \<Rightarrow> real \<Rightarrow> nat \<Rightarrow> int" where
  "targetCountOf originalVertexCount currentTargetRatio currentBestVertexCount =
     min \<lfloor>real originalVertexCount * currentTargetRatio\<rfloor> (int currentBestVertexCount - 1)"

text \<open>
  The distortion test of the synchronous loop: the sizes of the two bounding boxes are
  compared per axis, against 0.01 for a high-detail mesh and 0.02 otherwise.
\<close>

definition syncDistortion :: "analysis \<Rightarrow> geometry \<Rightarrow> geometry \<Rightarrow> bool" where
  "syncDistortion meshAnalysis creased originalGeometry =
     (let distortionThreshold = (if isHighDetail meshAnalysis then 0.01 else 0.02)
      in distorted distortionThreshold (geometryBoxSize creased) (geometryBoxSize originalGeometry))"

text \<open>
  The decision at the end of the loop body (from \<open>featureLossThreshold\<close> on): reject
  on distortion or feature loss, relaxing the target and giving up once it has passed
  0.9; otherwise accept the candidate when it has fewer vertices than the best so far.
\<close>

definition syncDecide ::
  "analysis \<Rightarrow> bool \<Rightarrow> feature_loss \<Rightarrow> geometry \<Rightarrow> nat \<Rightarrow> loop_state \<Rightarrow> step" where
  "syncDecide meshAnalysis distortion featureAnalysis creased creasedCount st1 =
     (let featureLossThreshold = (if isHighDetail meshAnalysis then 0.1 else 0.15);
          hasLostFeatures = (featureLossThreshold < lossRatio featureAnalysis)
      in if distortion \<or> hasLostFeatures
         then (let st2 = st1\<lparr>ls_ratio := min (ls_ratio st1 + 0.05) 0.98\<rparr>
               in if 0.9 < ls_ratio st2 then Return st2 else Next st2)
         else if creasedCount < ls_bestCount st1
         then Next (st1\<lparr>ls_geometry := creased,
                        ls_bestCount := creasedCount,
                        ls_modified := True,
                        ls_successful := True\<rparr>)
         else Next (st1\<lparr>ls_ratio := min (ls_ratio st1 + 0.05) 0.98\<rparr>))"

text \<open>
  One pass through the body of the \<open>while\<close> loop. \<open>Next\<close> goes back to the loop test
  (a \<open>continue\<close> or the end of the body), \<open>Break\<close> leaves the loop, \<open>Return\<close> is the
  \<open>return modified\<close> inside the loop, \<open>Inl\<close> an exception (caught by the \<open>try\<close>
  around the loop).
\<close>

definition syncAttempt ::
  "primitives \<Rightarrow> geometry \<Rightarrow> nat \<Rightarrow> group list option \<Rightarrow> analysis \<Rightarrow> loop_state \<Rightarrow> error + step"
where
  "syncAttempt P originalGeometry originalVertexCount originalMaterialGroups meshAnalysis st0 =
     (let st = st0\<lparr>ls_attempts := ls_attempts st0 + 1\<rparr>;
          targetCount = targetCountOf originalVertexCount (ls_ratio st) (ls_bestCount st)
      in if int (ls_bestCount st) \<le> targetCount then Inr (Break st)
         else
           (case modify P originalGeometry targetCount of
              Inl e \<Rightarrow> Inl e
            | Inr simplified \<Rightarrow>
           (case positionCount simplified of
              Inl e \<Rightarrow> Inl e
            | Inr simplifiedCount \<Rightarrow>
                if originalVertexCount \<le> simplifiedCount
                then Inr (Next (st\<lparr>ls_ratio := min (ls_ratio st + 0.1) 0.98\<rparr>))
                else
           (case restoreMaterialGroups simplified originalMaterialGroups of
              Inl e \<Rightarrow> Inl e
            | Inr regrouped \<Rightarrow>
           (case toCreasedNormals (computeVertexNormals P regrouped)
                   (if 0.5 < geometryComplexity meshAnalysis then 2.5 else 3) of
              Inl e \<Rightarrow> Inl e
            | Inr creased \<Rightarrow>
           (case positionCount creased of
              Inl e \<Rightarrow> Inl e
            | Inr creasedCount \<Rightarrow>
                if originalVertexCount < creasedCount
                then Inr (Next (st\<lparr>ls_ratio := min (ls_ratio st + 0.1) 0.98\<rparr>))
                else
                  (case checkForLostFeatures (mathRandom P) (ls_rng st) originalGeometry creased of
                     Inl e \<Rightarrow> Inl e
                   | Inr (featureAnalysis, k') \<Rightarrow>
                       Inr (syncDecide meshAnalysis
                              (syncDistortion meshAnalysis creased originalGeometry)
                              featureAnalysis creased creasedCount (st\<lparr>ls_rng := k'\<rparr>)))))))))"

text \<open>
  The loop \<open>while (!simplificationSuccessful && attempts < MAX_ATTEMPTS)\<close>, by recursion
  on the number of attempts that are left.
\<close>

fun syncLoop ::
  "primitives \<Rightarrow> geometry \<Rightarrow> nat \<Rightarrow> group list option \<Rightarrow> analysis \<Rightarrow> nat \<Rightarrow> loop_state
     \<Rightarrow> error + loop_state"
where
  "syncLoop P og ovc omg ma 0 st = Inr st"
| "syncLoop P og ovc omg ma (Suc remaining) st =
     (if ls_successful st then Inr st
      else (case syncAttempt P og ovc omg ma st of
              Inl e \<Rightarrow> Inl e
            | Inr (Next st') \<Rightarrow> syncLoop P og ovc omg ma remaining st'
            | Inr (Break st') \<Rightarrow> Inr st'
            | Inr (Return st') \<Rightarrow> Inr st'))"

record simplify_result =
  sr_modified :: bool
  sr_geometry :: "geometry option"
  sr_accepted :: bool

text \<open>The factor of the synchronous simplifier and its first target ratio.\<close>

definition syncTargetRatio :: "analysis \<Rightarrow> config \<Rightarrow> real" where
  "syncTargetRatio meshAnalysis cfg =
     (let simplificationFactor =
            (if 0.7 < geometryComplexity meshAnalysis then 0.15 * simplificationRatio cfg
             else if 0.4 < geometryComplexity meshAnalysis then 0.3 * simplificationRatio cfg
             else 0.7 * simplificationRatio cfg)
      in max (1 - simplificationFactor) 0.6)"

text \<open>
  The duplicate removal step: the merged geometry replaces \<open>mesh.geometry\<close> when it has
  no more vertices; an exception is caught and logged. The result is the geometry of the
  mesh, the best vertex count and the \<open>modified\<close> flag.
\<close>

definition syncDedup :: "primitives \<Rightarrow> config \<Rightarrow> geometry \<Rightarrow> nat \<Rightarrow> geometry \<times> nat \<times> bool" where
  "syncDedup P cfg g currentBestVertexCount =
     (if removeDuplicates cfg
      then (case mergeVertices P g 0.0001 of
              Inl e \<Rightarrow> (g, currentBestVertexCount, False)
            | Inr merged \<Rightarrow>
                (case positionCount merged of
                   Inl e \<Rightarrow> (g, currentBestVertexCount, False)
                 | Inr mergedCount \<Rightarrow>
                     if mergedCount \<le> currentBestVertexCount then (merged, mergedCount, True)
                     else (g, currentBestVertexCount, False)))
      else (g, currentBestVertexCount, False))"

text \<open>
  \<open>simplifyMesh\<close> of ThreeJsUtils.jsx. The reads of lines 126 to 133 stand before the
  first \<open>try\<close>: an exception there leaves the function (\<open>Inl\<close>). An exception inside
  the \<open>try\<close> around the loop makes the function return \<open>false\<close>. The result carries the
  returned flag, the geometry the mesh holds afterwards, and whether the loop accepted a
  candidate (the local \<open>simplificationSuccessful\<close>).
\<close>

definition simplifyMesh :: "primitives \<Rightarrow> mesh \<Rightarrow> config \<Rightarrow> error + simplify_result" where
  "simplifyMesh P m cfg =
     (case meshGeometry m of
        None \<Rightarrow> Inr \<lparr>sr_modified = False, sr_geometry = None, sr_accepted = False\<rparr>
      | Some g0 \<Rightarrow>
          if \<not> simplifyGeometry cfg
          then Inr \<lparr>sr_modified = False, sr_geometry = Some g0, sr_accepted = False\<rparr>
          else
            (case positionCount g0 of
               Inl e \<Rightarrow> Inl e
             | Inr originalVertexCount \<Rightarrow>
                 (case syncDedup P cfg g0 originalVertexCount of
                    (g1, best1, modified1) \<Rightarrow>
                      if \<not> simplifyGeometry cfg
                      then Inr \<lparr>sr_modified = modified1, sr_geometry = Some g1, sr_accepted = False\<rparr>
                      else if position g1 = None
                      then Inr \<lparr>sr_modified = modified1, sr_geometry = Some g1, sr_accepted = False\<rparr>
                      else
                        (let originalMaterialGroups = preserveMaterialGroups g1;
                             g2 = computeVertexNormals P g1
                         in case analyzeFeatureSizes (mathRandom P) 0 g2 of
                              Inl e \<Rightarrow> Inr \<lparr>sr_modified = False, sr_geometry = Some g2,
                                              sr_accepted = False\<rparr>
                            | Inr (meshAnalysis, k1) \<Rightarrow>
                                (case syncLoop P g0 originalVertexCount originalMaterialGroups
                                        meshAnalysis 10
                                        \<lparr>ls_geometry = g2, ls_bestCount = best1,
                                         ls_ratio = syncTargetRatio meshAnalysis cfg,
                                         ls_attempts = 0, ls_modified = modified1,
                                         ls_successful = False, ls_rng = k1\<rparr> of
                                   Inl e \<Rightarrow> Inr \<lparr>sr_modified = False, sr_geometry = Some g2,
                                                   sr_accepted = False\<rparr>
                                 | Inr st \<Rightarrow> Inr \<lparr>sr_modified = ls_modified st,
                                                    sr_geometry = Some (ls_geometry st),
                                                    sr_accepted = ls_successful st\<rparr>)))))"

section \<open>The worker's simplifier: simplifyMesh (simplifyMeshworker.js)\<close>

text \<open>
  The worker copies the attributes of a result into the geometry it was given: the
  position always, the index, the normals and the uvs when the result has them.
\<close>

definition copyAttributes :: "geometry \<Rightarrow> geometry \<Rightarrow> geometry" where
  "copyAttributes g src =
     g\<lparr>position := position src,
       index := (case index src of Some ix \<Rightarrow> Some ix | None \<Rightarrow> index g),
       normal := (case normal src of Some ns \<Rightarrow> Some ns | None \<Rightarrow> normal g),
       uv := (case uv src of Some us \<Rightarrow> Some us | None \<Rightarrow> uv g)\<rparr>"

definition workerDedup :: "primitives \<Rightarrow> config \<Rightarrow> geometry \<Rightarrow> nat \<Rightarrow> geometry \<times> nat \<times> bool" where
  "workerDedup P cfg g currentBestVertexCount =
     (if removeDuplicates cfg
      then (case mergeVertices P g 0.0001 of
              Inl e \<Rightarrow> (g, currentBestVertexCount, False)
            | Inr merged \<Rightarrow>
                (case positionCount merged of
                   Inl e \<Rightarrow> (g, currentBestVertexCount, False)
                 | Inr mergedCount \<Rightarrow>
                     if mergedCount \<le> currentBestVertexCount
                     then (copyAttributes g merged, mergedCount, True)
                     else (g, currentBestVertexCount, False)))
      else (g, currentBestVertexCount, False))"

definition workerTargetRatio :: "analysis \<Rightarrow> config \<Rightarrow> real" where
  "workerTargetRatio meshAnalysis cfg =
     (let simplificationFactor =
            (if 0.7 < geometryComplexity meshAnalysis then 0.85 * simplificationRatio cfg
             else if 0.4 < geometryComplexity meshAnalysis then 0.95 * simplificationRatio cfg
             else 0.98 * simplificationRatio cfg)
      in max (1 - simplificationFactor) 0.1)"

definition workerDistortion :: "analysis \<Rightarrow> geometry \<Rightarrow> geometry \<Rightarrow> bool" where
  "workerDistortion meshAnalysis candidate originalGeometry =
     (let distortionThreshold = (if isHighDetail meshAnalysis then 0.1 else 0.15)
      in distorted distortionThreshold (geometryBoxSize candidate) (geometryBoxSize originalGeometry))"

text \<open>
  The worker's decision: a rejection only relaxes the target (there is no giving up);
  an accepted candidate is copied into the geometry, with its groups when it has any.
\<close>

definition workerDecide ::
  "analysis \<Rightarrow> bool \<Rightarrow> feature_loss \<Rightarrow> geometry \<Rightarrow> nat \<Rightarrow> loop_state \<Rightarrow> step" where
  "workerDecide meshAnalysis distortion featureAnalysis candidate candidateCount st1 =
     (let featureLossThreshold = (if isHighDetail meshAnalysis then 0.5 else 0.6);
          hasLostFeatures = (featureLossThreshold < lossRatio featureAnalysis)
      in if distortion \<or> hasLostFeatures
         then Next (st1\<lparr>ls_ratio := min (ls_ratio st1 + 0.05) 0.98\<rparr>)
         else if candidateCount < ls_bestCount st1
         then Next (st1\<lparr>ls_geometry :=
                          (copyAttributes (ls_geometry st1) candidate)
                            \<lparr>groups := (if groups candidate \<noteq> []
                                         then map json_group (groups candidate)
                                         else groups (ls_geometry st1))\<rparr>,
                        ls_bestCount := candidateCount,
                        ls_modified := True,
                        ls_successful := True\<rparr>)
         else Next (st1\<lparr>ls_ratio := min (ls_ratio st1 + 0.02) 0.98\<rparr>))"

text \<open>
  The body of the worker's loop, inside its own \<open>try\<close>. When the normals are not
  preserved or the result has none, the body recomputes them and then assigns to
  \<open>simplified\<close>, which is declared \<open>const\<close>: the assignment throws a TypeError.
\<close>

definition workerBody ::
  "primitives \<Rightarrow> config \<Rightarrow> geometry \<Rightarrow> nat \<Rightarrow> group list option \<Rightarrow> analysis \<Rightarrow> loop_state
     \<Rightarrow> int \<Rightarrow> error + step"
where
  "workerBody P cfg originalGeometry originalVertexCount originalMaterialGroups meshAnalysis st
     targetCount =
     (case modify P originalGeometry targetCount of
        Inl e \<Rightarrow> Inl e
      | Inr simplified \<Rightarrow>
     (case positionCount simplified of
        Inl e \<Rightarrow> Inl e
      | Inr simplifiedCount \<Rightarrow>
          if originalVertexCount \<le> simplifiedCount
          then Inr (Next (st\<lparr>ls_ratio := min (ls_ratio st + 0.02) 0.98\<rparr>))
          else
     (case (if originalMaterialGroups \<noteq> None
            then restoreMaterialGroups simplified originalMaterialGroups
            else Inr simplified) of
        Inl e \<Rightarrow> Inl e
      | Inr regrouped \<Rightarrow>
     (case (if \<not> preserveNormals cfg \<or> normal regrouped = None
            then (case toCreasedNormals (computeVertexNormals P regrouped)
                         (if 0.5 < geometryComplexity meshAnalysis then 2.5 else 3) of
                    Inl e \<Rightarrow> Inl e
                  | Inr creased \<Rightarrow> Inl TypeError)
            else Inr regrouped) of
        Inl e \<Rightarrow> Inl e
      | Inr candidate \<Rightarrow>
          (case checkForLostFeatures (mathRandom P) (ls_rng st) originalGeometry candidate of
             Inl e \<Rightarrow> Inl e
           | Inr (featureAnalysis, k') \<Rightarrow>
               Inr (workerDecide meshAnalysis
                      (workerDistortion meshAnalysis candidate originalGeometry)
                      featureAnalysis candidate simplifiedCount (st\<lparr>ls_rng := k'\<rparr>)))))))"

definition workerAttempt ::
  "primitives \<Rightarrow> config \<Rightarrow> geometry \<Rightarrow> nat \<Rightarrow> group list option \<Rightarrow> analysis \<Rightarrow> loop_state
     \<Rightarrow> step"
where
  "workerAttempt P cfg originalGeometry originalVertexCount originalMaterialGroups meshAnalysis st0 =
     (let st = st0\<lparr>ls_attempts := ls_attempts st0 + 1\<rparr>;
          targetCount = targetCountOf originalVertexCount (ls_ratio st) (ls_bestCount st)
      in if int (ls_bestCount st) \<le> targetCount then Break st
         else (case workerBody P cfg originalGeometry originalVertexCount originalMaterialGroups
                      meshAnalysis st targetCount of
                 Inl err \<Rightarrow> Next (st\<lparr>ls_ratio := min (ls_ratio st + 0.1) 0.98\<rparr>)
               | Inr s \<Rightarrow> s))"

fun workerLoop ::
  "primitives \<Rightarrow> config \<Rightarrow> geometry \<Rightarrow> nat \<Rightarrow> group list option \<Rightarrow> analysis \<Rightarrow> nat \<Rightarrow> loop_state
     \<Rightarrow> loop_state"
where
  "workerLoop P cfg og ovc omg ma 0 st = st"
| "workerLoop P cfg og ovc omg ma (Suc remaining) st =
     (if ls_successful st then st
      else (case workerAttempt P cfg og ovc omg ma st of
              Next st' \<Rightarrow> workerLoop P cfg og ovc omg ma remaining st'
            | Break st' \<Rightarrow> st'
            | Return st' \<Rightarrow> st'))"

text \<open>
  The worker's \<open>simplifyMesh\<close>, on the geometry rebuilt from the message. It returns
  \<open>false\<close> at once for a geometry without a position attribute; no exception leaves it.
\<close>

definition simplifyMeshWorker :: "primitives \<Rightarrow> geometry \<Rightarrow> config \<Rightarrow> simplify_result" where
  "simplifyMeshWorker P g0 cfg =
     (case positionCount g0 of
        Inl e \<Rightarrow> \<lparr>sr_modified = False, sr_geometry = Some g0, sr_accepted = False\<rparr>
      | Inr originalVertexCount \<Rightarrow>
          (case workerDedup P cfg g0 originalVertexCount of
             (g1, best1, modified1) \<Rightarrow>
               if \<not> simplifyGeometry cfg
               then \<lparr>sr_modified = modified1, sr_geometry = Some g1, sr_accepted = False\<rparr>
               else
                 (let originalMaterialGroups = preserveMaterialGroups g0;
                      g2 = (if \<not> preserveNormals cfg \<or> normal g1 = None
                            then computeVertexNormals P g1 else g1)
                  in case analyzeFeatureSizes (mathRandom P) 0 g2 of
                       Inl e \<Rightarrow> \<lparr>sr_modified = False, sr_geometry = Some g2, sr_accepted = False\<rparr>
                     | Inr (meshAnalysis, k1) \<Rightarrow>
                         (let st = workerLoop P cfg g0 originalVertexCount originalMaterialGroups
                                     meshAnalysis 5
                                     \<lparr>ls_geometry = g2, ls_bestCount = best1,
                                      ls_ratio = workerTargetRatio meshAnalysis cfg,
                                      ls_attempts = 0, ls_modified = modified1,
                                      ls_successful = False, ls_rng = k1\<rparr>
                          in \<lparr>sr_modified = ls_modified st,
                              sr_geometry = Some (ls_geometry st),
                              sr_accepted = ls_successful st\<rparr>))))"


section \<open>Auxiliary predicates\<close>

text \<open>
  The search keeps three facts together: Draco counts as applied only once some result
  is held; the best size is infinite exactly as long as no result is held; otherwise it
  is the length of the held result.
\<close>

definition search_inv :: "search_state \<Rightarrow> bool" where
  "search_inv st =
     ((dracoApplied st \<longrightarrow> bestResult st \<noteq> None) \<and>
      (case bestResult st of
         None \<Rightarrow> bestSize st = \<infinity>
       | Some b \<Rightarrow> bestSize st = enat (length b)))"

text \<open>
  For the analysis: a fraction that is zero over an empty sample, the clamp to the unit
  interval, the number of faces of a set that a measurement flags, and the invariant of
  the sampling loop (the counters count the analysed faces).
\<close>

definition fraction :: "nat \<Rightarrow> nat \<Rightarrow> real" where
  "fraction a n = (if n = 0 then 0 else real a / real n)"

definition clamp01 :: "real \<Rightarrow> real" where
  "clamp01 x = max 0 (min 1 x)"

definition flagged :: "(measure3 \<Rightarrow> bool) \<Rightarrow> vec3 list \<Rightarrow> nat list option \<Rightarrow> int set \<Rightarrow> nat" where
  "flagged flag ps ixo S = card {f \<in> S. flag (measureFace ps ixo f)}"

definition sampling_inv :: "vec3 list \<Rightarrow> nat list option \<Rightarrow> sampling \<Rightarrow> bool" where
  "sampling_inv ps ixo st =
     (s_total st = card (set (analyzedTriangles st))
      \<and> s_small st = flagged m_small ps ixo (set (analyzedTriangles st))
      \<and> s_thin st = flagged m_thin ps ixo (set (analyzedTriangles st)))"

text \<open>
  The state a step of the loop ends in, and the invariant of the synchronous loop: the
  best count never exceeds the original count, and once a candidate is accepted the
  geometry held has fewer vertices than the original.
\<close>

fun stepState :: "step \<Rightarrow> loop_state" where
  "stepState (Next st) = st"
| "stepState (Break st) = st"
| "stepState (Return st) = st"

definition loop_inv :: "nat \<Rightarrow> loop_state \<Rightarrow> bool" where
  "loop_inv ovc st =
     (ls_bestCount st \<le> ovc \<and>
      (ls_successful st \<longrightarrow>
         ls_modified st \<and> (\<exists>n. positionCount (ls_geometry st) = Inr n \<and> n < ovc)))"

text \<open>
  The claim's words for the creased normals. A geometry is well formed when every index
  names a vertex and the triangles are whole. The incident face normals of a vertex are
  the normals of the triangles that list it, in triangle order, once per corner. The
  clustering is greedy; a cluster's reference is its first member. The largest cluster
  is the first one of maximal size.
\<close>

definition wellFormedGeometry :: "geometry \<Rightarrow> bool" where
  "wellFormedGeometry g =
     (case position g of
        None \<Rightarrow> False
      | Some ps \<Rightarrow>
          (case index g of
             Some ix \<Rightarrow> length ix mod 3 = 0 \<and> list_all (\<lambda>i. i < length ps) ix
           | None \<Rightarrow> length ps mod 3 = 0))"

definition faceNormalAt :: "vec3 list \<Rightarrow> nat list option \<Rightarrow> nat \<Rightarrow> vec3" where
  "faceNormalAt ps ixo f =
     faceNormalOf (ps ! the (corner ixo f 0)) (ps ! the (corner ixo f 1)) (ps ! the (corner ixo f 2))"

definition cornersAt :: "nat list option \<Rightarrow> nat \<Rightarrow> nat \<Rightarrow> nat list" where
  "cornersAt ixo v f = filter (\<lambda>k. corner ixo f k = Some v) [0, 1, 2]"

definition incidentFaces :: "nat list option \<Rightarrow> nat list \<Rightarrow> nat \<Rightarrow> nat list" where
  "incidentFaces ixo fs v = concat (map (\<lambda>f. map (\<lambda>k. f) (cornersAt ixo v f)) fs)"

definition incidentFaceNormals :: "vec3 list \<Rightarrow> nat list option \<Rightarrow> nat \<Rightarrow> vec3 list" where
  "incidentFaceNormals ps ixo v =
     map (faceNormalAt ps ixo) (incidentFaces ixo [0 ..< faceIterations ps ixo] v)"

fun joinCluster :: "real \<Rightarrow> vec3 \<Rightarrow> vec3 list list \<Rightarrow> vec3 list list" where
  "joinCluster cd n [] = [[n]]"
| "joinCluster cd n (c # cs) =
     (if cd < vdot n (hd c) then (c @ [n]) # cs else c # joinCluster cd n cs)"

definition greedyClusters :: "real \<Rightarrow> vec3 list \<Rightarrow> vec3 list list" where
  "greedyClusters cd ns = foldl (\<lambda>cs n. joinCluster cd n cs) [] ns"

definition firstLargest :: "vec3 list \<Rightarrow> vec3 list list \<Rightarrow> bool" where
  "firstLargest c cs =
     (\<exists>i < length cs. cs ! i = c
        \<and> (\<forall>j < length cs. length (cs ! j) \<le> length c)
        \<and> (\<forall>j < i. length (cs ! j) < length c))"

definition clusterAverage :: "vec3 list \<Rightarrow> vec3" where
  "clusterAverage c =
     (sum_list (map fst c) / real (length c),
      sum_list (map (\<lambda>n. fst (snd n)) c) / real (length c),
      sum_list (map (\<lambda>n. snd (snd n)) c) / real (length c))"

text \<open>
  For the proofs: a face whose three corners are vertices, and the relation between the
  groups the code builds and the clusters (same members, reference first).
\<close>

definition face_ok :: "vec3 list \<Rightarrow> nat list option \<Rightarrow> nat \<Rightarrow> bool" where
  "face_ok ps ixo f = (\<forall>k < 3. \<exists>i. corner ixo f k = Some i \<and> i < length ps)"

definition group_rel :: "normal_group list \<Rightarrow> vec3 list list \<Rightarrow> bool" where
  "group_rel gs cs =
     (map normals gs = cs \<and> (\<forall>g \<in> set gs. normals g \<noteq> [] \<and> reference g = hd (normals g)))"

text \<open>
  The count of a group as a real number (0 when it is not one), and the invariant
  "the group ends inside an index buffer of \<open>n\<close> entries".
\<close>

definition countOf :: "group \<Rightarrow> real" where
  "countOf g = (case count g of Num c \<Rightarrow> c | _ \<Rightarrow> 0)"

definition endsInside :: "nat \<Rightarrow> group \<Rightarrow> bool" where
  "endsInside n g =
     (case (start g, count g) of
        (Num s, Num c) \<Rightarrow> s + c \<le> real n
      | _ \<Rightarrow> False)"

section \<open>Concrete inputs\<close>

text \<open>
  A geometry of four vertices and two triangles (six indices), and the three material
  groups of a geometry that had eighteen indices before it was simplified.
\<close>

definition quadGeometry :: geometry where
  "quadGeometry =
     \<lparr>position = Some [(0, 0, 0), (1, 0, 0), (0, 1, 0), (1, 1, 0)], normal = None, uv = None,
      index = Some [0, 1, 2, 1, 3, 2], groups = []\<rparr>"

definition threeGroups :: "group list" where
  "threeGroups =
     [\<lparr>start = Num 0, count = Num 6, materialIndex = 0\<rparr>,
      \<lparr>start = Num 6, count = Num 6, materialIndex = 1\<rparr>,
      \<lparr>start = Num 12, count = Num 6, materialIndex = 2\<rparr>]"

text \<open>A geometry whose triangles have all been collapsed: three vertices, an empty index.\<close>

definition collapsedGeometry :: geometry where
  "collapsedGeometry =
     \<lparr>position = Some [(0, 0, 0), (1, 0, 0), (0, 1, 0)], normal = None, uv = None,
      index = Some [], groups = []\<rparr>"

text \<open>
  The smallest well-formed binary glTF file: the twelve-byte header (magic, version 2,
  total length 48) and one JSON chunk holding \<open>{"asset":{"version":"2.0"}}\<close>. It has
  no scene, so reading \<open>loadedData.scene\<close> fails and the loader stage ends in an
  exception.
\<close>

definition minimalGlb :: jsfile where
  "minimalGlb =
     \<lparr>fname = ''model.glb'',
      fdata = [103, 108, 84, 70, 2, 0, 0, 0, 48, 0, 0, 0,
               28, 0, 0, 0, 74, 83, 79, 78,
               123, 34, 97, 115, 115, 101, 116, 34, 58, 123, 34, 118, 101, 114, 115, 105,
               111, 110, 34, 58, 34, 50, 46, 48, 34, 125, 125, 32],
      ftype = ''model/gltf-binary'', freadable = True\<rparr>"

definition failingEnvironment :: environment where
  "failingEnvironment = \<lparr>loadAndProcess = (\<lambda>f c. Inl TypeError), jsonMinify = (\<lambda>b. None)\<rparr>"

text \<open>
  A file of one hundred bytes, a configuration that asks for Draco, and a scene of
  6000 vertices whose every export is 95 bytes long.
\<close>

definition hundredBytes :: jsfile where
  "hundredBytes =
     \<lparr>fname = ''scene.glb'', fdata = replicate 100 0, ftype = ''model/gltf-binary'',
      freadable = True\<rparr>"

definition dracoConfig :: config where
  "dracoConfig = defaultConfig\<lparr>useDraco := True\<rparr>"

definition flatRun :: scene_run where
  "flatRun =
     \<lparr>run_originalVertexCount = 6000, run_originalPolyCount = 2000, totalTextureSize = 0,
      meshPassApplied = False, run_optimizedVertexCount = 6000, run_optimizedPolyCount = 2000,
      exporter = (\<lambda>opts. Inr (replicate 95 0))\<rparr>"

text \<open>
  Two degenerate triangles without an index (six vertices) and the single such triangle a
  simplifier may return for them. Each has two equal corners, so it is both small and
  thin.
\<close>

definition sliverPair :: geometry where
  "sliverPair =
     \<lparr>position = Some [(0, 0, 0), (0, 0, 0), (1, 0, 0), (0, 0, 0), (0, 0, 0), (1, 0, 0)],
      normal = None, uv = None, index = None, groups = []\<rparr>"

definition sliver :: geometry where
  "sliver =
     \<lparr>position = Some [(0, 0, 0), (0, 0, 0), (1, 0, 0)],
      normal = None, uv = None, index = None, groups = []\<rparr>"

text \<open>
  Primitives for these inputs: \<open>computeVertexNormals\<close> gives a degenerate triangle
  zero normals, merging changes nothing, every random draw is 0, and the modifier
  returns the single triangle (or, for the stubborn one, its input).
\<close>

definition zeroNormals :: "geometry \<Rightarrow> geometry" where
  "zeroNormals g = g\<lparr>normal := map_option (map (\<lambda>p. (0, 0, 0))) (position g)\<rparr>"

definition sliverPrimitives :: primitives where
  "sliverPrimitives =
     \<lparr>mergeVertices = (\<lambda>g eps. Inr g), modify = (\<lambda>g n. Inr sliver),
      computeVertexNormals = zeroNormals, mathRandom = (\<lambda>i. 0)\<rparr>"

definition sliverAnalysis :: analysis where
  "sliverAnalysis =
     \<lparr>smallFeatureCount = 1, thinFeatureCount = 1, totalFeatures = 1, smallFeatureRatio = 1,
      thinFeatureRatio = 1, complexityRatio = 0, geometryComplexity = 1, isHighDetail = True\<rparr>"

definition sliverCreased :: geometry where
  "sliverCreased = sliver\<lparr>normal := Some [(0, 0, 0), (0, 0, 0), (0, 0, 0)]\<rparr>"

definition simplifyConfig :: config where
  "simplifyConfig = defaultConfig\<lparr>simplifyGeometry := True, simplificationRatio := 0.5\<rparr>"

definition stubbornPrimitives :: primitives where
  "stubbornPrimitives =
     \<lparr>mergeVertices = (\<lambda>g eps. Inr g), modify = (\<lambda>g n. Inr g),
      computeVertexNormals = zeroNormals, mathRandom = (\<lambda>i. 0)\<rparr>"

definition firstAttempt :: loop_state where
  "firstAttempt =
     \<lparr>ls_geometry = zeroNormals sliverPair, ls_bestCount = 6, ls_ratio = 37 / 40,
      ls_attempts = 0, ls_modified = False, ls_successful = False, ls_rng = 2\<rparr>"

definition positionless :: geometry where
  "positionless = \<lparr>position = None, normal = None, uv = None, index = None, groups = []\<rparr>"

text \<open>
  Two analyses: a high-detail original (20 sampled triangles, 10 small, 10 thin) and a
  candidate with the same counts over 13 sampled triangles.
\<close>

definition detailedOriginal :: analysis where
  "detailedOriginal =
     \<lparr>smallFeatureCount = 10, thinFeatureCount = 10, totalFeatures = 20,
      smallFeatureRatio = 1 / 2, thinFeatureRatio = 1 / 2, complexityRatio = 0,
      geometryComplexity = 1 / 2, isHighDetail = True\<rparr>"

definition denserCandidate :: analysis where
  "denserCandidate =
     \<lparr>smallFeatureCount = 10, thinFeatureCount = 10, totalFeatures = 13,
      smallFeatureRatio = 10 / 13, thinFeatureRatio = 10 / 13, complexityRatio = 0,
      geometryComplexity = 10 / 13, isHighDetail = True\<rparr>"

text \<open>
  The single triangle stretched by five percent along the first axis, with its (zero)
  normals; a modifier that returns it; a configuration that preserves normals.
\<close>

definition stretchedSliver :: geometry where
  "stretchedSliver =
     \<lparr>position = Some [(0, 0, 0), (0, 0, 0), (21 / 20, 0, 0)],
      normal = Some [(0, 0, 0), (0, 0, 0), (0, 0, 0)], uv = None, index = None, groups = []\<rparr>"

definition stretchPrimitives :: primitives where
  "stretchPrimitives =
     \<lparr>mergeVertices = (\<lambda>g eps. Inr g), modify = (\<lambda>g n. Inr stretchedSliver),
      computeVertexNormals = zeroNormals, mathRandom = (\<lambda>i. 0)\<rparr>"

definition preservingConfig :: config where
  "preservingConfig = simplifyConfig\<lparr>preserveNormals := True\<rparr>"

text \<open>
  A GLB file of 84 bytes whose JSON chunk is
  \<open>{"asset":{"version":"2.0"},"scene":0,"scenes":[{"nodes":[]}]}\<close>: an empty scene. It
  loads; the environment below re-exports it as 120 bytes under every configuration.
\<close>

definition emptySceneGlb :: jsfile where
  "emptySceneGlb =
     \<lparr>fname = ''empty.glb'',
      fdata = [103, 108, 84, 70, 2, 0, 0, 0, 84, 0, 0, 0,
               64, 0, 0, 0, 74, 83, 79, 78,
               123, 34, 97, 115, 115, 101, 116, 34, 58, 123, 34, 118, 101, 114, 115, 105,
               111, 110, 34, 58, 34, 50, 46, 48, 34, 125, 44, 34, 115, 99, 101, 110, 101, 34,
               58, 48, 44, 34, 115, 99, 101, 110, 101, 115, 34, 58, 91, 123, 34, 110, 111,
               100, 101, 115, 34, 58, 91, 93, 125, 93, 125, 32, 32, 32],
      ftype = ''model/gltf-binary'', freadable = True\<rparr>"

definition plainEnvironment :: environment where
  "plainEnvironment =
     \<lparr>loadAndProcess =
        (\<lambda>f c. Inr \<lparr>run_originalVertexCount = 0, run_originalPolyCount = 0,
                      totalTextureSize = 0, meshPassApplied = False,
                      run_optimizedVertexCount = 0, run_optimizedPolyCount = 0,
                      exporter = (\<lambda>opts. Inr (replicate 120 0))\<rparr>),
      jsonMinify = (\<lambda>b. None)\<rparr>"

section \<open>Material groups: what restoreMaterialGroups does\<close>

lemma repack_length: "length (repack n off gs) = length gs"
  by (induction gs arbitrary: off) (simp_all add: Let_def)

lemma scaleGroup_one:
  assumes "is_int_num (start grp)" and "is_int_num (count grp)"
  shows "scaleGroup (Num 1) grp = grp"
proof -
  from assms obtain a c where a: "start grp = Num a" "a = of_int \<lfloor>a\<rfloor>"
    and c: "count grp = Num c" "c = of_int \<lfloor>c\<rfloor>"
    by (auto simp: is_int_num_def split: jsnum.splits)
  have "js_floor (js_mul (start grp) (Num 1)) = start grp"
    using a by simp
  moreover have "js_floor (js_mul (count grp) (Num 1)) = count grp"
    using c by simp
  ultimately show ?thesis
    by (simp add: scaleGroup_def)
qed

lemma scaleFactor_nonzero:
  assumes "indexCount g = Inr n" and "n \<noteq> 0"
  shows "scaleFactor g = Inr (Num 1)"
  using assms by (simp add: scaleFactor_def)

text \<open>
  C4 (the code at a failing input). The geometry has six indices; the groups come from
  the eighteen indices of the geometry before simplification. After
  \<open>restoreMaterialGroups\<close> the second group starts at 6 and the third at 12, neither of
  them below the index count 6, and the third group has the count \<open>-6\<close>: the claim's
  \<open>start < newIndexCount\<close> does not hold.
\<close>

theorem restoreMaterialGroups_starts_past_range:
  "restoreMaterialGroups quadGeometry (Some threeGroups)
     = Inr (quadGeometry\<lparr>groups :=
              [\<lparr>start = Num 0, count = Num 6, materialIndex = 0\<rparr>,
               \<lparr>start = Num 6, count = Num 0, materialIndex = 1\<rparr>,
               \<lparr>start = Num 12, count = Num (- 6), materialIndex = 2\<rparr>]\<rparr>)
   \<and> indexCount quadGeometry = Inr 6
   \<and> \<not> js_lt (Num 12) (Num 6)"
  by (simp add: restoreMaterialGroups_def quadGeometry_def threeGroups_def indexCount_def
        scaleFactor_def scaleGroup_def js_sub_def js_lt_def Let_def)

text \<open>
  What the repacking does keep, for groups whose counts are non-negative numbers and a
  numeric starting offset: every group ends inside the new index buffer, and the counts
  add up to at most what remains of the buffer after the starting offset.
\<close>

lemma repack_endsInside:
  assumes "\<forall>g \<in> set gs. \<exists>c. count g = Num c"
  shows "list_all (endsInside n) (repack n (Num off) gs)"
  using assms
proof (induction gs arbitrary: off)
  case Nil
  then show ?case by simp
next
  case (Cons g gs)
  then obtain c where c: "count g = Num c" by auto
  from Cons have rest: "list_all (endsInside n) (repack n (Num (off + c)) gs)" by simp
  have cut: "endsInside n (g\<lparr>start := Num off, count := Num (real n - off)\<rparr>)"
    by (simp add: endsInside_def)
  have kept: "off + c \<le> real n \<Longrightarrow> endsInside n (g\<lparr>start := Num off\<rparr>)"
    using c by (simp add: endsInside_def)
  show ?case
    using c rest cut kept by (simp add: Let_def js_sub_def)
qed

lemma repack_total:
  assumes "\<forall>g \<in> set gs. \<exists>c. count g = Num c \<and> 0 \<le> c"
  shows "sum_list (map countOf (repack n (Num off) gs)) \<le> max 0 (real n - off)"
  using assms
proof (induction gs arbitrary: off)
  case Nil
  then show ?case by simp
next
  case (Cons g gs)
  then obtain c where c: "count g = Num c" "0 \<le> c" by auto
  from Cons have rest:
    "sum_list (map countOf (repack n (Num (off + c)) gs)) \<le> max 0 (real n - (off + c))"
    by simp
  have cut: "countOf (g\<lparr>start := Num off, count := Num (real n - off)\<rparr>) = real n - off"
    by (simp add: countOf_def)
  have kept: "countOf (g\<lparr>start := Num off\<rparr>) = c"
    using c by (simp add: countOf_def)
  show ?case
  proof (cases "real n < off + c")
    case True
    then have "max 0 (real n - (off + c)) = 0" by simp
    with rest have "sum_list (map countOf (repack n (Num (off + c)) gs)) \<le> 0" by simp
    with True c cut show ?thesis
      by (simp add: Let_def js_sub_def)
  next
    case False
    with rest c kept show ?thesis
      by (simp add: Let_def)
  qed
qed

text \<open>
  C10, as the claim states it, fails where the index count is zero: the scale factor is
  \<open>0 / 0\<close>, that is \<open>NaN\<close> and not 1, and the count of a group becomes \<open>NaN\<close>.
\<close>

theorem scaleFactor_collapsed_is_NaN:
  "scaleFactor collapsedGeometry = Inr NaN
   \<and> NaN \<noteq> Num 1
   \<and> map count (map (scaleGroup NaN) threeGroups) = [NaN, NaN, NaN]
   \<and> map count threeGroups = [Num 6, Num 6, Num 6]"
  by (simp add: scaleFactor_def collapsedGeometry_def indexCount_def scaleGroup_def
        threeGroups_def)

text \<open>
  C10 (amended). \<open>restoreMaterialGroups\<close> takes its old and its new index count from
  the same geometry. So for every geometry whose index count (its vertex count when it
  has no index) is not zero, the scale factor is 1; every preserved group with an
  integer start and count is left as it is by the scaling pass; and the result is the
  re-packing of the unscaled groups: the ranges are never rescaled in proportion to a
  changed index count.
\<close>

theorem restoreMaterialGroups_never_rescales:
  assumes "indexCount g = Inr n" and "n \<noteq> 0"
    and "\<forall>grp \<in> set gs. is_int_num (start grp) \<and> is_int_num (count grp)"
  shows "scaleFactor g = Inr (Num 1)
         \<and> map (scaleGroup (Num 1)) gs = gs
         \<and> restoreMaterialGroups g (Some gs) = Inr (g\<lparr>groups := repack n (Num 0) gs\<rparr>)"
proof -
  have sf: "scaleFactor g = Inr (Num 1)"
    using assms(1,2) by (rule scaleFactor_nonzero)
  have same: "map (scaleGroup (Num 1)) gs = gs"
    using assms(3) by (induction gs) (simp_all add: scaleGroup_one)
  show ?thesis
    using sf same assms(1) by (simp add: restoreMaterialGroups_def)
qed

theorem restoreMaterialGroups_never_rescales_witness:
  "indexCount quadGeometry = Inr 6
   \<and> scaleFactor quadGeometry = Inr (Num 1)
   \<and> map (scaleGroup (Num 1)) threeGroups = threeGroups
   \<and> restoreMaterialGroups quadGeometry (Some threeGroups)
       = Inr (quadGeometry\<lparr>groups := repack 6 (Num 0) threeGroups\<rparr>)"
proof -
  have n: "indexCount quadGeometry = Inr 6"
    by (simp add: indexCount_def quadGeometry_def)
  have ints: "\<forall>grp \<in> set threeGroups. is_int_num (start grp) \<and> is_int_num (count grp)"
    by (simp add: threeGroups_def is_int_num_def)
  show ?thesis
    using n restoreMaterialGroups_never_rescales [OF n _ ints] by simp
qed

section \<open>Reported sizes: what optimizeModels returns\<close>

lemma exportLoop_inv: "search_inv st \<Longrightarrow> search_inv (exportLoop ex n cs st)"
proof (induction cs arbitrary: st)
  case Nil
  then show ?case by simp
next
  case (Cons c cs)
  show ?case
  proof (cases "ex (coptions c)")
    case (Inl e)
    with Cons show ?thesis by simp
  next
    case (Inr result)
    let ?st1 = "if opt_draco (coptions c) \<noteq> None \<and> enat (length result) < \<infinity>
                then st\<lparr>dracoApplied := True\<rparr> else st"
    let ?st2 = "?st1\<lparr>bestSize := enat (length result), bestResult := Some result,
                     bestConfigName := cname c\<rparr>"
    have inv2: "search_inv ?st2" by (simp add: search_inv_def)
    show ?thesis
    proof (cases "enat (length result) < bestSize ?st1")
      case True
      with Inr inv2 Cons.IH [of ?st2] show ?thesis
        by (simp add: Let_def)
    next
      case False
      then have "bestResult st \<noteq> None"
        using Cons.prems by (auto simp: search_inv_def split: option.splits if_splits)
      with Cons.prems have "search_inv ?st1"
        by (auto simp: search_inv_def split: option.splits)
      with False Inr Cons.IH [of ?st1] show ?thesis
        by (simp add: Let_def)
    qed
  qed
qed

lemma exportSearch_inv: "search_inv (exportSearch fl cfg run)"
  unfolding exportSearch_def Let_def
  by (rule exportLoop_inv) (simp add: search_inv_def initialSearch_def)

lemma defaultConfig_fields:
  "useDraco defaultConfig = False" "embedImages defaultConfig = False"
  by (simp_all add: defaultConfig_def)

text \<open>
  The empty scene of 84 bytes loads, no mesh is processed and every export is larger
  than the file: the \<open>else\<close> branch calls \<open>applyMinimalCompression\<close>, which returns
  all 84 bytes, and the branch reports their number.
\<close>

lemma optimizeModels_unchanged_glb:
  "map originalSize (optimizeModels plainEnvironment [emptySceneGlb] []) = [84]
   \<and> map optimizedSize (optimizeModels plainEnvironment [emptySceneGlb] []) = [84]"
proof -
  define run where "run =
        \<lparr>run_originalVertexCount = 0, run_originalPolyCount = 0,
                      totalTextureSize = 0, meshPassApplied = False,
                      run_optimizedVertexCount = 0, run_optimizedPolyCount = 0,
                      exporter = (\<lambda>opts::export_options. (Inr (replicate 120 0) :: error + bytes))\<rparr>"
  have sz: "fsize emptySceneGlb = 84"
    by (simp add: fsize_def emptySceneGlb_def)
  have search: "exportSearch emptySceneGlb defaultConfig run
      = \<lparr>bestResult = Some (replicate 120 0), bestSize = enat 120,
         bestConfigName = ''Binary encoding without Draco'', dracoApplied = False\<rparr>"
    by (simp add: exportSearch_def sz defaultConfig_fields exportConfigurations_def
          fullOptions_def initialSearch_def Let_def run_def)
  have amc: "applyMinimalCompression (\<lambda>b. None) emptySceneGlb
               = Inr \<lparr>bdata = fdata emptySceneGlb, btype = ''model/gltf-binary''\<rparr>"
    by (simp add: applyMinimalCompression_def emptySceneGlb_def endsWith_def getUint32_def
          Let_def)
  have len: "length (fdata emptySceneGlb) = 84"
    using sz by (simp add: fsize_def)
  have mp: "meshPassApplied run = False"
    by (simp add: run_def)
  have loaded: "\<exists>cs. optimizeLoaded (\<lambda>b. None) emptySceneGlb defaultConfig run
      = Inr \<lparr>originalSize = 84, optimizedSize = 84,
             optimizedBlob = \<lparr>bdata = fdata emptySceneGlb, btype = ''model/gltf-binary''\<rparr>,
             resultCounts = cs\<rparr>"
    by (simp add: optimizeLoaded_def search amc sz len bsize_def defaultConfig_fields mp Let_def)
  have env: "loadAndProcess plainEnvironment emptySceneGlb defaultConfig = Inr run"
     "jsonMinify plainEnvironment = (\<lambda>b. None)"
    by (simp_all add: plainEnvironment_def run_def)
  from loaded obtain cs where l: "optimizeLoaded (\<lambda>b. None) emptySceneGlb defaultConfig run
      = Inr \<lparr>originalSize = 84, optimizedSize = 84,
             optimizedBlob = \<lparr>bdata = fdata emptySceneGlb, btype = ''model/gltf-binary''\<rparr>,
             resultCounts = cs\<rparr>" by blast
  show ?thesis
    by (simp add: optimizeModels_def optimizeFile_def env l)
qed

text \<open>
  C1 (the code at failing inputs). First input: the empty scene above with the default
  configuration; the reported \<open>optimizedSize\<close> is 84, the original size, and not at
  most \<open>84 * 0.98\<close>. Second input: the loader stage throws on the minimal GLB file, so
  \<open>catch (innerError)\<close> calls \<open>applyMinimalCompression\<close>. The magic matches, the
  length field reads 48, and the blob is \<open>buffer.slice(0, 12 + 48)\<close>: all 48 bytes. The
  reported \<open>optimizedSize\<close> is 48, the original size, and not at most \<open>48 * 0.98\<close>.
\<close>

theorem optimizeModels_glb_recovery_keeps_size:
  "map originalSize (optimizeModels plainEnvironment [emptySceneGlb] []) = [84]
   \<and> map optimizedSize (optimizeModels plainEnvironment [emptySceneGlb] []) = [84]
   \<and> \<not> (84 :: real) \<le> 84 * 0.98
   \<and> map originalSize (optimizeModels failingEnvironment [minimalGlb] []) = [48]
   \<and> map optimizedSize (optimizeModels failingEnvironment [minimalGlb] []) = [48]
   \<and> \<not> (48 :: real) \<le> 48 * 0.98"
proof -
  have recovery:
    "map originalSize (optimizeModels failingEnvironment [minimalGlb] []) = [48]
     \<and> map optimizedSize (optimizeModels failingEnvironment [minimalGlb] []) = [48]"
    by (simp add: optimizeModels_def optimizeFile_def applyMinimalCompression_def
          failingEnvironment_def minimalGlb_def endsWith_def getUint32_def fsize_def bsize_def
          Let_def)
  with optimizeModels_unchanged_glb show ?thesis
    by simp
qed

text \<open>
  C7. When Draco is requested, some Draco export succeeded, and the best candidate of
  the search is larger than 0.9 times the original size, the result that
  \<open>optimizeModels\<close> builds for the file reports
  \<open>optimizedSize = originalSize * (1 - r)\<close>, with \<open>r = 0.05\<close> for a small model (fewer
  than 5000 vertices or less than 1 MiB) and \<open>r = 0.15\<close> otherwise, and its blob holds
  the bytes of the best candidate unchanged.
\<close>

theorem draco_reporting_floor:
  assumes "useDraco cfg"
    and "dracoApplied (exportSearch fl cfg run)"
    and "bestResult (exportSearch fl cfg run) = Some best"
    and "real (fsize fl) * 0.9 < real (length best)"
  shows "\<exists>res. optimizeLoaded jm fl cfg run = Inr res
           \<and> originalSize res = fsize fl
           \<and> optimizedSize res
               = real (fsize fl) * (1 - (if isModelSmall fl run then 0.05 else 0.15))
           \<and> optimizedBlob res = gltfBlob best"
proof -
  have sz: "bestSize (exportSearch fl cfg run) = enat (length best)"
    using exportSearch_inv [of fl cfg run] assms(3) by (simp add: search_inv_def)
  have m: "min (real (fsize fl) * (1 - (if isModelSmall fl run then 0.05 else 0.15)))
               (real (fsize fl) * 0.98)
           = real (fsize fl) * (1 - (if isModelSmall fl run then 0.05 else 0.15))"
    by (simp add: min_def mult_left_mono)
  show ?thesis
    using assms sz m by (simp add: optimizeLoaded_def Let_def)
qed

lemma flat_search:
  "exportSearch hundredBytes dracoConfig flatRun
     = \<lparr>bestResult = Some (replicate 95 0), bestSize = enat 95,
        bestConfigName = ''Draco compression'', dracoApplied = True\<rparr>"
  by (simp add: exportSearch_def hundredBytes_def dracoConfig_def defaultConfig_def
        flatRun_def exportConfigurations_def fullOptions_def initialSearch_def fsize_def
        Let_def)

theorem draco_reporting_floor_witness:
  "useDraco dracoConfig
   \<and> dracoApplied (exportSearch hundredBytes dracoConfig flatRun)
   \<and> real (fsize hundredBytes) * 0.9 < real (length (replicate 95 (0 :: 8 word)))
   \<and> (\<exists>res. optimizeLoaded (\<lambda>b. None) hundredBytes dracoConfig flatRun = Inr res
          \<and> originalSize res = 100
          \<and> optimizedSize res = 95
          \<and> optimizedBlob res = gltfBlob (replicate 95 0))"
proof -
  have h1: "useDraco dracoConfig"
    by (simp add: dracoConfig_def)
  have h2: "dracoApplied (exportSearch hundredBytes dracoConfig flatRun)"
    by (simp add: flat_search)
  have h3: "bestResult (exportSearch hundredBytes dracoConfig flatRun) = Some (replicate 95 0)"
    by (simp add: flat_search)
  have h4: "real (fsize hundredBytes) * 0.9 < real (length (replicate 95 (0 :: 8 word)))"
    by (simp add: fsize_def hundredBytes_def)
  have small: "isModelSmall hundredBytes flatRun"
    by (simp add: isModelSmall_def fsize_def hundredBytes_def)
  have sz: "fsize hundredBytes = 100"
    by (simp add: fsize_def hundredBytes_def)
  from draco_reporting_floor [OF h1 h2 h3 h4, of "\<lambda>b. None"]
  show ?thesis
    using h1 h2 h4 small sz by simp
qed

section \<open>Feature analysis: what analyzeFeatureSizes returns\<close>

lemma flagged_insert:
  assumes "finite S" and "f \<notin> S"
  shows "flagged flag ps ixo (insert f S)
           = (if flag (measureFace ps ixo f) then flagged flag ps ixo S + 1 else flagged flag ps ixo S)"
proof -
  have eq: "{x \<in> insert f S. flag (measureFace ps ixo x)}
            = (if flag (measureFace ps ixo f) then insert f {x \<in> S. flag (measureFace ps ixo x)}
               else {x \<in> S. flag (measureFace ps ixo x)})"
    by auto
  show ?thesis
    using assms unfolding flagged_def eq by simp
qed

lemma flagged_le: "finite S \<Longrightarrow> flagged flag ps ixo S \<le> card S"
  unfolding flagged_def by (rule card_mono) auto

lemma sampleStep_analyzed:
  "set (analyzedTriangles (sampleStep ps ixo f st)) = insert f (set (analyzedTriangles st))"
  by (auto simp: sampleStep_def Let_def)

lemma sampleStep_inv:
  assumes "sampling_inv ps ixo st"
  shows "sampling_inv ps ixo (sampleStep ps ixo f st)"
proof (cases "f \<in> set (analyzedTriangles st)")
  case True
  with assms show ?thesis by (simp add: sampleStep_def)
next
  case False
  then show ?thesis
    using assms
    by (simp add: sampling_inv_def sampleStep_def Let_def flagged_insert)
qed

lemma fold_sampleStep:
  assumes "sampling_inv ps ixo st"
  shows "sampling_inv ps ixo (fold (sampleStep ps ixo) ds st)
         \<and> set (analyzedTriangles (fold (sampleStep ps ixo) ds st))
             = set ds \<union> set (analyzedTriangles st)"
  using assms
proof (induction ds arbitrary: st)
  case Nil
  then show ?case by simp
next
  case (Cons d ds)
  from Cons.prems have "sampling_inv ps ixo (sampleStep ps ixo d st)"
    by (rule sampleStep_inv)
  from Cons.IH [OF this] show ?case
    by (simp add: sampleStep_analyzed)
qed

lemma summarize_complexity:
  assumes "s_small st \<le> s_total st" and "s_thin st \<le> s_total st"
  shows "geometryComplexity (summarize st)
           = clamp01 (fraction (smallFeatureCount (summarize st)) (totalFeatures (summarize st)) * 0.6
                      + fraction (thinFeatureCount (summarize st)) (totalFeatures (summarize st)) * 0.4
                      + complexityRatio (summarize st) * 0.5)"
    and "isHighDetail (summarize st) = (0.4 < geometryComplexity (summarize st))"
proof -
  define raw where "raw = (real (s_small st) / real (max 1 (s_total st))) * 0.6
            + (real (s_thin st) / real (max 1 (s_total st))) * 0.4
            + (real (length (filter (\<lambda>(key, d). 2 < d_count d \<and> (d_small d \<or> d_thin d)) (densityMap st)))
                / real (max 1 (length (densityMap st)))) * 0.5"
  have nonneg: "0 \<le> raw"
    unfolding raw_def by (intro add_nonneg_nonneg mult_nonneg_nonneg divide_nonneg_nonneg) simp_all
  have fr: "fraction (s_small st) (s_total st) = real (s_small st) / real (max 1 (s_total st))"
           "fraction (s_thin st) (s_total st) = real (s_thin st) / real (max 1 (s_total st))"
    using assms by (auto simp: fraction_def max_def)
  have gc: "geometryComplexity (summarize st) = min 1 raw"
    by (simp add: summarize_def Let_def raw_def)
  have hd: "isHighDetail (summarize st) = (0.4 < raw)"
    by (simp add: summarize_def Let_def raw_def)
  show "geometryComplexity (summarize st)
           = clamp01 (fraction (smallFeatureCount (summarize st)) (totalFeatures (summarize st)) * 0.6
                      + fraction (thinFeatureCount (summarize st)) (totalFeatures (summarize st)) * 0.4
                      + complexityRatio (summarize st) * 0.5)"
    using nonneg unfolding gc clamp01_def
    by (simp add: summarize_def Let_def fr raw_def max_def min_def)
  show "isHighDetail (summarize st) = (0.4 < geometryComplexity (summarize st))"
    unfolding gc hd by (simp add: min_def)
qed

text \<open>
  C9. For every geometry with a position attribute, \<open>analyzeFeatureSizes\<close> returns an
  analysis whose counters are those of the sampled triangles (the distinct face indices
  that were drawn): \<open>totalFeatures\<close> is their number, \<open>smallFeatureCount\<close> and
  \<open>thinFeatureCount\<close> the numbers of them flagged small and thin. Its
  \<open>geometryComplexity\<close> is the clamp to the unit interval of
  \<open>smallRatio * 0.6 + thinRatio * 0.4 + complexityRatio * 0.5\<close>, the two ratios being
  the fractions of sampled triangles flagged small and thin, and \<open>isHighDetail\<close> holds
  exactly when \<open>geometryComplexity\<close> exceeds 0.4.
\<close>

theorem analyzeFeatureSizes_complexity:
  assumes "position g = Some ps"
  shows "\<exists>a. analyzeFeatureSizes rnd k g = Inr (a, k + sampleIterations ps (index g))
           \<and> totalFeatures a = card (set (drawnFaces rnd k ps (index g)))
           \<and> smallFeatureCount a = flagged m_small ps (index g) (set (drawnFaces rnd k ps (index g)))
           \<and> thinFeatureCount a = flagged m_thin ps (index g) (set (drawnFaces rnd k ps (index g)))
           \<and> geometryComplexity a
               = clamp01 (fraction (smallFeatureCount a) (totalFeatures a) * 0.6
                          + fraction (thinFeatureCount a) (totalFeatures a) * 0.4
                          + complexityRatio a * 0.5)
           \<and> isHighDetail a = (0.4 < geometryComplexity a)"
proof -
  let ?ds = "drawnFaces rnd k ps (index g)"
  let ?st = "fold (sampleStep ps (index g)) ?ds initialSampling"
  have init: "sampling_inv ps (index g) initialSampling"
    by (simp add: sampling_inv_def initialSampling_def flagged_def)
  from fold_sampleStep [OF init, of ?ds]
  have inv: "sampling_inv ps (index g) ?st"
    and seen: "set (analyzedTriangles ?st) = set ?ds"
    by (simp_all add: initialSampling_def)
  have tot: "s_total ?st = card (set ?ds)"
    and sm: "s_small ?st = flagged m_small ps (index g) (set ?ds)"
    and th: "s_thin ?st = flagged m_thin ps (index g) (set ?ds)"
    using inv seen by (simp_all add: sampling_inv_def)
  have le: "s_small ?st \<le> s_total ?st" "s_thin ?st \<le> s_total ?st"
    unfolding tot sm th by (simp_all add: flagged_le)
  have res: "analyzeFeatureSizes rnd k g = Inr (summarize ?st, k + sampleIterations ps (index g))"
    using assms by (simp add: analyzeFeatureSizes_def)
  have fields: "totalFeatures (summarize ?st) = s_total ?st"
    "smallFeatureCount (summarize ?st) = s_small ?st"
    "thinFeatureCount (summarize ?st) = s_thin ?st"
    by (simp_all add: summarize_def Let_def)
  show ?thesis
    using res summarize_complexity [OF le] fields tot sm th by (intro exI [of _ "summarize ?st"]) simp
qed

theorem analyzeFeatureSizes_complexity_witness:
  "position quadGeometry = Some [(0, 0, 0), (1, 0, 0), (0, 1, 0), (1, 1, 0)]
   \<and> (\<exists>a. analyzeFeatureSizes (\<lambda>i. 0) 0 quadGeometry = Inr (a, 2)
          \<and> geometryComplexity a
               = clamp01 (fraction (smallFeatureCount a) (totalFeatures a) * 0.6
                          + fraction (thinFeatureCount a) (totalFeatures a) * 0.4
                          + complexityRatio a * 0.5)
          \<and> isHighDetail a = (0.4 < geometryComplexity a))"
proof -
  have p: "position quadGeometry = Some [(0, 0, 0), (1, 0, 0), (0, 1, 0), (1, 1, 0)]"
    by (simp add: quadGeometry_def)
  have n: "sampleIterations [(0, 0, 0), (1, 0, 0), (0, 1, 0), (1, 1, 0)] (index quadGeometry) = 2"
    by (simp add: sampleIterations_def triangleCount_def quadGeometry_def)
  from analyzeFeatureSizes_complexity [OF p, of "\<lambda>i. 0" 0]
  show ?thesis
    using p n by auto
qed

section \<open>The synchronous simplifier on concrete meshes\<close>

lemma upt_0_2: "[0 ..< 2] = [0, 1]"
  by (simp add: upt_rec)

lemma measure_sliver:
  "0 < s \<Longrightarrow>
   measureTriangle s t (Some (0, 0, 0)) (Some (0, 0, 0)) (Some (1, 0, 0))
     = \<lparr>m_small = True, m_thin = True, m_key = Some (33, 0, 0)\<rparr>"
  by (simp add: measureTriangle_def edgeLength_def Let_def js_round_def)

lemma diag_sliverPair:
  "diagonalLength [(0, 0, 0), (0, 0, 0), (1, 0, 0), (0, 0, 0), (0, 0, 0), (1, 0, 0)] = 1"
  by (simp add: diagonalLength_def boxSize_def extent_def)

lemma diag_sliver: "diagonalLength [(0, 0, 0), (0, 0, 0), (1, 0, 0)] = 1"
  by (simp add: diagonalLength_def boxSize_def extent_def)

lemma analyze_sliverPair:
  "position g = Some [(0, 0, 0), (0, 0, 0), (1, 0, 0), (0, 0, 0), (0, 0, 0), (1, 0, 0)] \<Longrightarrow> index g = None \<Longrightarrow>
   analyzeFeatureSizes (\<lambda>i. 0) k g = Inr (sliverAnalysis, k + 2)"
  by (simp add: analyzeFeatureSizes_def drawnFaces_def sampleIterations_def upt_0_2
        triangleCount_def sampleStep_def measureFace_def triangleVertex_def vertexAt_def
        diag_sliverPair measure_sliver initialSampling_def summarize_def sliverAnalysis_def Let_def)

lemma analyze_sliver:
  "position g = Some [(0, 0, 0), (0, 0, 0), (1, 0, 0)] \<Longrightarrow> index g = None \<Longrightarrow>
   analyzeFeatureSizes (\<lambda>i. 0) k g = Inr (sliverAnalysis, k + 1)"
  by (simp add: analyzeFeatureSizes_def drawnFaces_def sampleIterations_def
        triangleCount_def sampleStep_def measureFace_def triangleVertex_def vertexAt_def
        diag_sliver measure_sliver initialSampling_def summarize_def sliverAnalysis_def Let_def)

lemma creased_sliver: "toCreasedNormals (zeroNormals sliver) a = Inr sliverCreased"
  by (simp add: toCreasedNormals_def zeroNormals_def sliver_def sliverCreased_def
        faceIterations_def triangleCount_def faceStep_def corner_def faceNormalOf_def
        vsub_def vcross_def vnormalize_def vlength_def vertexNormal_def groupNormals_def
        dominantGroup_def averageNormal_def vadd_def Let_def)

lemma check_sliver:
  "checkForLostFeatures (\<lambda>i. 0) k sliverPair sliverCreased
     = Inr (\<lparr>featuresLost = False, lossRatio = 0, smallFeatureLossRatio = 0,
              thinFeatureLossRatio = 0, complexityChangeRatio = 0\<rparr>, k + 3)"
  by (simp add: checkForLostFeatures_def analyze_sliverPair analyze_sliver sliverPair_def
        sliverCreased_def sliver_def compareFeatures_def sliverAnalysis_def Let_def)

lemma no_distortion_sliver: "\<not> syncDistortion sliverAnalysis sliverCreased sliverPair"
  by (simp add: syncDistortion_def distorted_def axisDistorted_def geometryBoxSize_def
        boxSize_def extent_def sliverCreased_def sliver_def sliverPair_def sliverAnalysis_def
        js_sub_def Let_def)

lemma sliverAnalysis_fields:
  "isHighDetail sliverAnalysis" "geometryComplexity sliverAnalysis = 1"
  by (simp_all add: sliverAnalysis_def)

lemma simplifyConfig_fields:
  "simplifyGeometry simplifyConfig" "\<not> removeDuplicates simplifyConfig"
  "simplificationRatio simplifyConfig = 0.5" "\<not> preserveNormals simplifyConfig"
  by (simp_all add: simplifyConfig_def defaultConfig_def)

lemma sliverPrimitives_fields:
  "modify sliverPrimitives = (\<lambda>g n. Inr sliver)"
  "computeVertexNormals sliverPrimitives = zeroNormals"
  "mathRandom sliverPrimitives = (\<lambda>i. 0)"
  "mergeVertices sliverPrimitives = (\<lambda>g eps. Inr g)"
  by (simp_all add: sliverPrimitives_def)

lemma syncLoop_successful:
  "ls_successful st \<Longrightarrow> syncLoop P og ovc omg ma n st = Inr st"
  by (cases n) simp_all

lemma syncLoop_unfold:
  "syncLoop P og ovc omg ma (numeral k) st
     = (if ls_successful st then Inr st
        else (case syncAttempt P og ovc omg ma st of
                Inl e \<Rightarrow> Inl e
              | Inr (Next st') \<Rightarrow> syncLoop P og ovc omg ma (pred_numeral k) st'
              | Inr (Break st') \<Rightarrow> Inr st'
              | Inr (Return st') \<Rightarrow> Inr st'))"
  by (simp add: numeral_eq_Suc)

lemma attempt_sliver:
  "syncAttempt sliverPrimitives sliverPair 6 None sliverAnalysis
      \<lparr>ls_geometry = zeroNormals sliverPair, ls_bestCount = 6, ls_ratio = 37 / 40,
       ls_attempts = 0, ls_modified = False, ls_successful = False, ls_rng = 2\<rparr>
   = Inr (Next \<lparr>ls_geometry = sliverCreased, ls_bestCount = 3, ls_ratio = 37 / 40,
                ls_attempts = 1, ls_modified = True, ls_successful = True, ls_rng = 5\<rparr>)"
proof -
  have pc: "positionCount sliver = Inr 3" "positionCount sliverCreased = Inr 3"
    by (simp_all add: positionCount_def sliver_def sliverCreased_def)
  have tc: "targetCountOf 6 (37 / 40) 6 = 5"
    by (simp add: targetCountOf_def)
  show ?thesis
    by (simp add: syncAttempt_def sliverPrimitives_fields tc pc restoreMaterialGroups_def
          creased_sliver check_sliver no_distortion_sliver syncDecide_def sliverAnalysis_fields
          Let_def)
qed

lemma simplify_sliver:
  "simplifyMesh sliverPrimitives \<lparr>meshGeometry = Some sliverPair\<rparr> simplifyConfig
     = Inr \<lparr>sr_modified = True, sr_geometry = Some sliverCreased, sr_accepted = True\<rparr>"
proof -
  have pc: "positionCount sliverPair = Inr 6"
    by (simp add: positionCount_def sliverPair_def)
  have an: "analyzeFeatureSizes (\<lambda>i. 0) 0 (zeroNormals sliverPair) = Inr (sliverAnalysis, 2)"
    using analyze_sliverPair [of "zeroNormals sliverPair" 0]
    by (simp add: zeroNormals_def sliverPair_def)
  have ratio: "syncTargetRatio sliverAnalysis simplifyConfig = 37 / 40"
    by (simp add: syncTargetRatio_def sliverAnalysis_fields simplifyConfig_fields)
  have pos: "position sliverPair \<noteq> None" "groups sliverPair = []"
    by (simp_all add: sliverPair_def)
  show ?thesis
    unfolding simplifyMesh_def
    by (simp add: pc an ratio pos syncDedup_def simplifyConfig_fields
          sliverPrimitives_fields preserveMaterialGroups_def syncLoop_unfold attempt_sliver
          syncLoop_successful Let_def)
qed

section \<open>The synchronous simplifier: accepted results\<close>

lemma syncDecide_inv:
  assumes "loop_inv ovc st" and "positionCount creased = Inr n"
  shows "loop_inv ovc (stepState (syncDecide ma d fa creased n st))"
  using assms by (auto simp: syncDecide_def loop_inv_def Let_def)

lemma syncAttempt_inv:
  assumes "loop_inv ovc st" and "syncAttempt P og ovc omg ma st = Inr s"
  shows "loop_inv ovc (stepState s)"
proof -
  let ?st = "st\<lparr>ls_attempts := ls_attempts st + 1\<rparr>"
  have inv': "loop_inv ovc ?st"
    using assms(1) by (simp add: loop_inv_def)
  have rng: "\<And>k. loop_inv ovc (?st\<lparr>ls_rng := k\<rparr>)"
    using assms(1) by (simp add: loop_inv_def)
  have bump: "\<And>x. loop_inv ovc (?st\<lparr>ls_ratio := x\<rparr>)"
    using assms(1) by (simp add: loop_inv_def)
  show ?thesis
    using assms(2) inv' bump syncDecide_inv [OF rng]
    unfolding syncAttempt_def Let_def
    by (auto split: if_splits sum.splits prod.splits)
qed

lemma syncLoop_inv:
  assumes "loop_inv ovc st" and "syncLoop P og ovc omg ma n st = Inr st'"
  shows "loop_inv ovc st'"
  using assms
proof (induction n arbitrary: st)
  case 0
  then show ?case by simp
next
  case (Suc n)
  show ?case
  proof (cases "ls_successful st")
    case True
    with Suc.prems show ?thesis by simp
  next
    case False
    with Suc.prems(2) obtain s where att: "syncAttempt P og ovc omg ma st = Inr s"
      by (auto split: sum.splits)
    from syncAttempt_inv [OF Suc.prems(1) att] have inv: "loop_inv ovc (stepState s)" .
    show ?thesis
    proof (cases s)
      case (Next st1)
      with att False Suc.prems(2) have "syncLoop P og ovc omg ma n st1 = Inr st'" by simp
      with Suc.IH [of st1] inv Next show ?thesis by simp
    next
      case (Break st1)
      with att False Suc.prems(2) inv show ?thesis by simp
    next
      case (Return st1)
      with att False Suc.prems(2) inv show ?thesis by simp
    qed
  qed
qed

lemma syncDedup_best:
  "syncDedup P cfg g n = (g1, best1, modified1) \<Longrightarrow> best1 \<le> n"
  by (auto simp: syncDedup_def split: if_splits sum.splits)

lemma syncAttempt_rejects_large:
  assumes "modify P og (targetCountOf ovc (ls_ratio st) (ls_bestCount st)) = Inr c"
    and "positionCount c = Inr n" and "ovc \<le> n"
  shows "\<exists>s. syncAttempt P og ovc omg ma st = Inr s
           \<and> ls_geometry (stepState s) = ls_geometry st
           \<and> ls_successful (stepState s) = ls_successful st
           \<and> ls_modified (stepState s) = ls_modified st"
  using assms by (simp add: syncAttempt_def Let_def)

text \<open>
  C5. Whenever \<open>simplifyMesh\<close> accepts a simplification result (the loop replaces
  \<open>mesh.geometry\<close> by a candidate), the geometry the mesh then holds has strictly fewer
  vertices than the original geometry, and the function reports a modification. And a
  candidate returned by the modifier whose vertex count is not strictly less than the
  original count is always rejected: the attempt leaves the geometry, the success flag
  and the modified flag as they were.
\<close>

theorem accepted_simplification_has_fewer_vertices:
  "(simplifyMesh P m cfg = Inr r \<and> sr_accepted r \<longrightarrow>
      (\<exists>g0 n0 g n. meshGeometry m = Some g0 \<and> positionCount g0 = Inr n0
         \<and> sr_geometry r = Some g \<and> positionCount g = Inr n \<and> n < n0 \<and> sr_modified r))
   \<and> (modify Q og (targetCountOf ovc (ls_ratio st) (ls_bestCount st)) = Inr c
        \<and> positionCount c = Inr k \<and> ovc \<le> k \<longrightarrow>
      (\<exists>s. syncAttempt Q og ovc omg ma st = Inr s
         \<and> ls_geometry (stepState s) = ls_geometry st
         \<and> ls_successful (stepState s) = ls_successful st
         \<and> ls_modified (stepState s) = ls_modified st))"
proof (intro conjI impI)
  assume a: "simplifyMesh P m cfg = Inr r \<and> sr_accepted r"
  then have res: "simplifyMesh P m cfg = Inr r" and acc: "sr_accepted r" by simp_all
  from res acc obtain g0 where g0: "meshGeometry m = Some g0"
    by (auto simp: simplifyMesh_def split: option.splits)
  from res acc g0 have sg: "simplifyGeometry cfg"
    by (auto simp: simplifyMesh_def split: if_splits)
  from res acc g0 sg obtain n0 where n0: "positionCount g0 = Inr n0"
    by (auto simp: simplifyMesh_def split: sum.splits)
  obtain g1 best1 modified1 where dd: "syncDedup P cfg g0 n0 = (g1, best1, modified1)"
    by (cases "syncDedup P cfg g0 n0") auto
  have best: "best1 \<le> n0" using dd by (rule syncDedup_best)
  from res acc g0 sg n0 dd obtain ma k1 st where
    loop: "syncLoop P g0 n0 (preserveMaterialGroups g1) ma 10
             \<lparr>ls_geometry = computeVertexNormals P g1, ls_bestCount = best1,
              ls_ratio = syncTargetRatio ma cfg, ls_attempts = 0, ls_modified = modified1,
              ls_successful = False, ls_rng = k1\<rparr> = Inr st"
    and r: "r = \<lparr>sr_modified = ls_modified st, sr_geometry = Some (ls_geometry st),
                 sr_accepted = ls_successful st\<rparr>"
    by (auto simp: simplifyMesh_def Let_def split: if_splits sum.splits prod.splits)
  have "loop_inv n0 \<lparr>ls_geometry = computeVertexNormals P g1, ls_bestCount = best1,
              ls_ratio = syncTargetRatio ma cfg, ls_attempts = 0, ls_modified = modified1,
              ls_successful = False, ls_rng = k1\<rparr>"
    using best by (simp add: loop_inv_def)
  from syncLoop_inv [OF this loop] have "loop_inv n0 st" .
  with acc r obtain n where "positionCount (ls_geometry st) = Inr n" "n < n0" "ls_modified st"
    by (auto simp: loop_inv_def)
  with g0 n0 r show "\<exists>g0 n0 g n. meshGeometry m = Some g0 \<and> positionCount g0 = Inr n0
         \<and> sr_geometry r = Some g \<and> positionCount g = Inr n \<and> n < n0 \<and> sr_modified r"
    by auto
next
  assume "modify Q og (targetCountOf ovc (ls_ratio st) (ls_bestCount st)) = Inr c
        \<and> positionCount c = Inr k \<and> ovc \<le> k"
  then show "\<exists>s. syncAttempt Q og ovc omg ma st = Inr s
         \<and> ls_geometry (stepState s) = ls_geometry st
         \<and> ls_successful (stepState s) = ls_successful st
         \<and> ls_modified (stepState s) = ls_modified st"
    using syncAttempt_rejects_large by blast
qed

theorem accepted_simplification_has_fewer_vertices_witness:
  "simplifyMesh sliverPrimitives \<lparr>meshGeometry = Some sliverPair\<rparr> simplifyConfig
     = Inr \<lparr>sr_modified = True, sr_geometry = Some sliverCreased, sr_accepted = True\<rparr>
   \<and> positionCount sliverPair = Inr 6
   \<and> positionCount sliverCreased = Inr 3
   \<and> modify stubbornPrimitives sliverPair
        (targetCountOf 6 (ls_ratio firstAttempt) (ls_bestCount firstAttempt)) = Inr sliverPair
   \<and> (6 :: nat) \<le> 6
   \<and> (\<exists>s. syncAttempt stubbornPrimitives sliverPair 6 None sliverAnalysis firstAttempt = Inr s
          \<and> ls_geometry (stepState s) = ls_geometry firstAttempt
          \<and> ls_successful (stepState s) = ls_successful firstAttempt
          \<and> ls_modified (stepState s) = ls_modified firstAttempt)"
proof -
  have pc: "positionCount sliverPair = Inr 6" "positionCount sliverCreased = Inr 3"
    by (simp_all add: positionCount_def sliverPair_def sliverCreased_def sliver_def)
  have md: "modify stubbornPrimitives sliverPair
        (targetCountOf 6 (ls_ratio firstAttempt) (ls_bestCount firstAttempt)) = Inr sliverPair"
    by (simp add: stubbornPrimitives_def)
  from accepted_simplification_has_fewer_vertices
         [of sliverPrimitives "\<lparr>meshGeometry = Some sliverPair\<rparr>" simplifyConfig
             "\<lparr>sr_modified = True, sr_geometry = Some sliverCreased, sr_accepted = True\<rparr>"
             stubbornPrimitives sliverPair 6 firstAttempt sliverPair 6 None sliverAnalysis]
  show ?thesis
    using simplify_sliver pc md by simp
qed

text \<open>
  C6 (the code at a failing input). For a mesh whose geometry has no position attribute
  and a configuration that asks for simplification, \<open>simplifyMesh\<close> of
  ThreeJsUtils.jsx reads \<open>originalGeometry.attributes.position.count\<close> before its first
  \<open>try\<close> and before the guard of line 161: the TypeError leaves the function. The
  worker's \<open>simplifyMesh\<close> checks the attribute first and returns \<open>false\<close> on the
  same geometry.
\<close>

theorem simplifyMesh_throws_without_position:
  "simplifyMesh P \<lparr>meshGeometry = Some positionless\<rparr> simplifyConfig = Inl TypeError"
  by (simp add: simplifyMesh_def positionless_def simplifyConfig_fields positionCount_def)

lemma simplifyMeshWorker_without_position:
  "simplifyMeshWorker P positionless simplifyConfig
     = \<lparr>sr_modified = False, sr_geometry = Some positionless, sr_accepted = False\<rparr>"
  by (simp add: simplifyMeshWorker_def positionless_def positionCount_def)

lemma targetCountOf_less: "targetCountOf ovc r b < int b"
  by (simp add: targetCountOf_def)

text \<open>
  C3 (amended). In the retry loop of \<open>simplifyMesh\<close>, take an attempt whose candidate
  has fewer vertices than the original and than the best so far and shows no distortion.
  The attempt rejects the candidate (for feature loss) exactly when the combined loss
  ratio \<open>small * 0.35 + thin * 0.45 + complexityChange * 0.2\<close> of
  \<open>checkForLostFeatures\<close> exceeds the loop's own threshold: 0.1 when the analysis of the
  mesh made before the loop says high detail, 0.15 otherwise. A rejected candidate leaves
  the geometry as it was.
\<close>

theorem loop_rejects_on_feature_loss:
  assumes "\<not> ls_successful st" and "ls_bestCount st \<le> ovc"
    and "modify P og (targetCountOf ovc (ls_ratio st) (ls_bestCount st)) = Inr simplified"
    and "positionCount simplified = Inr n" and "n < ovc"
    and "restoreMaterialGroups simplified omg = Inr regrouped"
    and "toCreasedNormals (computeVertexNormals P regrouped)
           (if 0.5 < geometryComplexity ma then 2.5 else 3) = Inr creased"
    and "positionCount creased = Inr n'" and "n' < ls_bestCount st"
    and "\<not> syncDistortion ma creased og"
    and "analyzeFeatureSizes (mathRandom P) (ls_rng st) og = Inr (originalFeatures, k1)"
    and "analyzeFeatureSizes (mathRandom P) k1 creased = Inr (simplifiedFeatures, k2)"
  shows "\<exists>s. syncAttempt P og ovc omg ma st = Inr s
           \<and> (\<not> ls_successful (stepState s) \<longleftrightarrow>
                (if isHighDetail ma then 0.1 else 0.15)
                  < (1 - real (smallFeatureCount simplifiedFeatures)
                           / real (max 1 (smallFeatureCount originalFeatures))) * 0.35
                    + (1 - real (thinFeatureCount simplifiedFeatures)
                             / real (max 1 (thinFeatureCount originalFeatures))) * 0.45
                    + (\<bar>geometryComplexity simplifiedFeatures - geometryComplexity originalFeatures\<bar>
                         / max 0.1 (geometryComplexity originalFeatures)) * 0.2)
           \<and> (\<not> ls_successful (stepState s) \<longrightarrow> ls_geometry (stepState s) = ls_geometry st)"
proof -
  have chk: "checkForLostFeatures (mathRandom P) (ls_rng st) og creased
               = Inr (compareFeatures originalFeatures simplifiedFeatures, k2)"
    using assms(11,12) by (simp add: checkForLostFeatures_def)
  have nle: "\<not> ovc < n'" "\<not> ovc \<le> n"
    using assms(2,5,9) by simp_all
  have tc: "targetCountOf ovc (ls_ratio st) (ls_bestCount st) < int (ls_bestCount st)"
    by (rule targetCountOf_less)
  have att: "syncAttempt P og ovc omg ma st
      = Inr (syncDecide ma False (compareFeatures originalFeatures simplifiedFeatures) creased n'
               (st\<lparr>ls_attempts := ls_attempts st + 1, ls_rng := k2\<rparr>))"
    using tc assms(3,4,6,7,8,10) chk nle
    by (simp add: syncAttempt_def Let_def)
  show ?thesis
    unfolding att using assms(1,9)
    by (auto simp: syncDecide_def compareFeatures_def Let_def)
qed

theorem loop_rejects_on_feature_loss_witness:
  "\<not> ls_successful firstAttempt \<and> ls_bestCount firstAttempt \<le> 6
   \<and> modify sliverPrimitives sliverPair
        (targetCountOf 6 (ls_ratio firstAttempt) (ls_bestCount firstAttempt)) = Inr sliver
   \<and> positionCount sliver = Inr 3
   \<and> restoreMaterialGroups sliver None = Inr sliver
   \<and> toCreasedNormals (computeVertexNormals sliverPrimitives sliver)
        (if 0.5 < geometryComplexity sliverAnalysis then 2.5 else 3) = Inr sliverCreased
   \<and> positionCount sliverCreased = Inr 3
   \<and> \<not> syncDistortion sliverAnalysis sliverCreased sliverPair
   \<and> analyzeFeatureSizes (mathRandom sliverPrimitives) (ls_rng firstAttempt) sliverPair
        = Inr (sliverAnalysis, 4)
   \<and> analyzeFeatureSizes (mathRandom sliverPrimitives) 4 sliverCreased = Inr (sliverAnalysis, 5)
   \<and> (\<exists>s. syncAttempt sliverPrimitives sliverPair 6 None sliverAnalysis firstAttempt = Inr s
          \<and> ls_successful (stepState s))"
proof -
  have h1: "\<not> ls_successful firstAttempt" and h2: "ls_bestCount firstAttempt \<le> 6"
    by (simp_all add: firstAttempt_def)
  have h4: "modify sliverPrimitives sliverPair
              (targetCountOf 6 (ls_ratio firstAttempt) (ls_bestCount firstAttempt)) = Inr sliver"
    by (simp add: sliverPrimitives_fields)
  have h5: "positionCount sliver = Inr 3" and h6: "(3 :: nat) < 6"
    by (simp_all add: positionCount_def sliver_def)
  have h7: "restoreMaterialGroups sliver None = Inr sliver"
    by (simp add: restoreMaterialGroups_def)
  have h8: "toCreasedNormals (computeVertexNormals sliverPrimitives sliver)
              (if 0.5 < geometryComplexity sliverAnalysis then 2.5 else 3) = Inr sliverCreased"
    by (simp add: sliverPrimitives_fields creased_sliver)
  have h9: "positionCount sliverCreased = Inr 3"
    and h10: "3 < ls_bestCount firstAttempt"
    by (simp_all add: positionCount_def sliverCreased_def sliver_def firstAttempt_def)
  have h12: "analyzeFeatureSizes (mathRandom sliverPrimitives) (ls_rng firstAttempt) sliverPair
               = Inr (sliverAnalysis, 4)"
    using analyze_sliverPair [of sliverPair 2]
    by (simp add: sliverPrimitives_fields firstAttempt_def sliverPair_def)
  have h13: "analyzeFeatureSizes (mathRandom sliverPrimitives) 4 sliverCreased
               = Inr (sliverAnalysis, 5)"
    using analyze_sliver [of sliverCreased 4]
    by (simp add: sliverPrimitives_fields sliverCreased_def sliver_def)
  from loop_rejects_on_feature_loss
         [OF h1 h2 h4 h5 h6 h7 h8 h9 h10 no_distortion_sliver h12 h13]
  obtain s where s: "syncAttempt sliverPrimitives sliverPair 6 None sliverAnalysis firstAttempt = Inr s"
    and iff: "(\<not> ls_successful (stepState s)) =
           ((if isHighDetail sliverAnalysis then 0.1 else 0.15)
                  < (1 - real (smallFeatureCount sliverAnalysis)
                           / real (max 1 (smallFeatureCount sliverAnalysis))) * 0.35
                    + (1 - real (thinFeatureCount sliverAnalysis)
                             / real (max 1 (thinFeatureCount sliverAnalysis))) * 0.45
                    + (\<bar>geometryComplexity sliverAnalysis - geometryComplexity sliverAnalysis\<bar>
                         / max 0.1 (geometryComplexity sliverAnalysis)) * 0.2)"
    by blast
  have "ls_successful (stepState s)"
    using iff by (simp add: sliverAnalysis_def)
  with s h1 h2 h4 h5 h7 h8 h9 no_distortion_sliver h12 h13 show ?thesis
    by blast
qed

text \<open>
  C3, as the claim states it, fails: with a high-detail original the loss ratio
  \<open>7 / 65\<close> (about 0.108) does not exceed 0.12, and \<open>checkForLostFeatures\<close> reports
  no lost features, yet the loop rejects the candidate and relaxes the target ratio from
  0.6 to 0.65, because its own threshold is 0.1.
\<close>

theorem loop_rejects_below_comparator_threshold:
  "isHighDetail detailedOriginal
   \<and> lossRatio (compareFeatures detailedOriginal denserCandidate) = 7 / 65
   \<and> \<not> (0.12 :: real) < 7 / 65
   \<and> \<not> featuresLost (compareFeatures detailedOriginal denserCandidate)
   \<and> syncDecide detailedOriginal False (compareFeatures detailedOriginal denserCandidate)
        sliverCreased 3 (firstAttempt\<lparr>ls_ratio := 3 / 5\<rparr>)
       = Next (firstAttempt\<lparr>ls_ratio := 13 / 20\<rparr>)"
  by (simp add: compareFeatures_def detailedOriginal_def denserCandidate_def syncDecide_def
        firstAttempt_def Let_def)

section \<open>The two simplifiers on one input\<close>

lemma measure_stretched:
  "0 < s \<Longrightarrow>
   measureTriangle s t (Some (0, 0, 0)) (Some (0, 0, 0)) (Some (21 / 20, 0, 0))
     = \<lparr>m_small = True, m_thin = True, m_key = Some (35, 0, 0)\<rparr>"
  by (simp add: measureTriangle_def edgeLength_def Let_def js_round_def)

lemma diag_stretched: "0 < diagonalLength [(0, 0, 0), (0, 0, 0), (21 / 20, 0, 0)]"
  by (simp add: diagonalLength_def boxSize_def extent_def)

lemma analyze_stretched:
  "position g = Some [(0, 0, 0), (0, 0, 0), (21 / 20, 0, 0)] \<Longrightarrow> index g = None \<Longrightarrow>
   analyzeFeatureSizes (\<lambda>i. 0) k g = Inr (sliverAnalysis, k + 1)"
  by (simp add: analyzeFeatureSizes_def drawnFaces_def sampleIterations_def
        triangleCount_def sampleStep_def measureFace_def triangleVertex_def vertexAt_def
        diag_stretched measure_stretched initialSampling_def summarize_def sliverAnalysis_def
        Let_def)

lemma creased_stretched: "toCreasedNormals (zeroNormals stretchedSliver) a = Inr stretchedSliver"
  by (simp add: toCreasedNormals_def zeroNormals_def stretchedSliver_def
        faceIterations_def triangleCount_def faceStep_def corner_def faceNormalOf_def
        vsub_def vcross_def vnormalize_def vlength_def vertexNormal_def groupNormals_def
        dominantGroup_def averageNormal_def vadd_def Let_def)

lemma check_stretched:
  "checkForLostFeatures (\<lambda>i. 0) k sliverPair stretchedSliver
     = Inr (\<lparr>featuresLost = False, lossRatio = 0, smallFeatureLossRatio = 0,
              thinFeatureLossRatio = 0, complexityChangeRatio = 0\<rparr>, k + 3)"
  by (simp add: checkForLostFeatures_def analyze_sliverPair analyze_stretched sliverPair_def
        stretchedSliver_def compareFeatures_def sliverAnalysis_def Let_def)

lemma distortion_stretched:
  "syncDistortion sliverAnalysis stretchedSliver sliverPair"
  "\<not> workerDistortion sliverAnalysis stretchedSliver sliverPair"
  by (simp_all add: syncDistortion_def workerDistortion_def distorted_def axisDistorted_def
        geometryBoxSize_def boxSize_def extent_def stretchedSliver_def sliverPair_def
        sliverAnalysis_def js_sub_def Let_def)

lemma stretchPrimitives_fields:
  "modify stretchPrimitives = (\<lambda>g n. Inr stretchedSliver)"
  "computeVertexNormals stretchPrimitives = zeroNormals"
  "mathRandom stretchPrimitives = (\<lambda>i. 0)"
  "mergeVertices stretchPrimitives = (\<lambda>g eps. Inr g)"
  by (simp_all add: stretchPrimitives_def)

lemma preservingConfig_fields:
  "simplifyGeometry preservingConfig" "\<not> removeDuplicates preservingConfig"
  "simplificationRatio preservingConfig = 1 / 2" "preserveNormals preservingConfig"
  by (simp_all add: preservingConfig_def simplifyConfig_def defaultConfig_def)

lemma sync_attempt_stretched:
  "syncAttempt stretchPrimitives sliverPair 6 None sliverAnalysis firstAttempt
   = Inr (Return (firstAttempt\<lparr>ls_ratio := 39 / 40, ls_attempts := 1, ls_rng := 5\<rparr>))"
proof -
  have pc: "positionCount stretchedSliver = Inr 3"
    by (simp add: positionCount_def stretchedSliver_def)
  have tc: "targetCountOf 6 (37 / 40) 6 = 5"
    by (simp add: targetCountOf_def)
  show ?thesis
    by (simp add: syncAttempt_def firstAttempt_def stretchPrimitives_fields tc pc
          restoreMaterialGroups_def creased_stretched check_stretched distortion_stretched
          syncDecide_def sliverAnalysis_fields Let_def)
qed

lemma sync_stretched:
  "simplifyMesh stretchPrimitives \<lparr>meshGeometry = Some sliverPair\<rparr> preservingConfig
     = Inr \<lparr>sr_modified = False, sr_geometry = Some (zeroNormals sliverPair),
            sr_accepted = False\<rparr>"
proof -
  have pc: "positionCount sliverPair = Inr 6"
    by (simp add: positionCount_def sliverPair_def)
  have an: "analyzeFeatureSizes (\<lambda>i. 0) 0 (zeroNormals sliverPair) = Inr (sliverAnalysis, 2)"
    using analyze_sliverPair [of "zeroNormals sliverPair" 0]
    by (simp add: zeroNormals_def sliverPair_def)
  have ratio: "syncTargetRatio sliverAnalysis preservingConfig = 37 / 40"
    by (simp add: syncTargetRatio_def sliverAnalysis_fields preservingConfig_fields)
  have pos: "position sliverPair \<noteq> None" "groups sliverPair = []"
    by (simp_all add: sliverPair_def)
  have att: "syncAttempt stretchPrimitives sliverPair 6 None sliverAnalysis
      \<lparr>ls_geometry = zeroNormals sliverPair, ls_bestCount = 6, ls_ratio = 37 / 40,
       ls_attempts = 0, ls_modified = False, ls_successful = False, ls_rng = 2\<rparr>
     = Inr (Return (firstAttempt\<lparr>ls_ratio := 39 / 40, ls_attempts := 1, ls_rng := 5\<rparr>))"
    using sync_attempt_stretched by (simp add: firstAttempt_def)
  show ?thesis
    unfolding simplifyMesh_def
    by (simp add: pc an ratio pos syncDedup_def preservingConfig_fields
          stretchPrimitives_fields preserveMaterialGroups_def syncLoop_unfold att
          firstAttempt_def Let_def)
qed

lemma workerLoop_unfold:
  "workerLoop P cfg og ovc omg ma (numeral k) st
     = (if ls_successful st then st
        else (case workerAttempt P cfg og ovc omg ma st of
                Next st' \<Rightarrow> workerLoop P cfg og ovc omg ma (pred_numeral k) st'
              | Break st' \<Rightarrow> st'
              | Return st' \<Rightarrow> st'))"
  by (simp add: numeral_eq_Suc)

lemma workerLoop_successful:
  "ls_successful st \<Longrightarrow> workerLoop P cfg og ovc omg ma n st = st"
  by (cases n) simp_all

lemma worker_attempt_stretched:
  "workerAttempt stretchPrimitives preservingConfig sliverPair 6 None sliverAnalysis
      \<lparr>ls_geometry = zeroNormals sliverPair, ls_bestCount = 6, ls_ratio = 23 / 40,
       ls_attempts = 0, ls_modified = False, ls_successful = False, ls_rng = 2\<rparr>
   = Next \<lparr>ls_geometry = stretchedSliver, ls_bestCount = 3, ls_ratio = 23 / 40,
           ls_attempts = 1, ls_modified = True, ls_successful = True, ls_rng = 5\<rparr>"
proof -
  have pc: "positionCount stretchedSliver = Inr 3"
    by (simp add: positionCount_def stretchedSliver_def)
  have tc: "targetCountOf 6 (23 / 40) 6 = 3"
    by (simp add: targetCountOf_def)
  have nm: "normal stretchedSliver \<noteq> None" "groups stretchedSliver = []"
    by (simp_all add: stretchedSliver_def)
  have cp: "copyAttributes (zeroNormals sliverPair) stretchedSliver\<lparr>groups := groups (zeroNormals sliverPair)\<rparr>
            = stretchedSliver"
    by (simp add: copyAttributes_def zeroNormals_def sliverPair_def stretchedSliver_def)
  show ?thesis
    by (simp add: workerAttempt_def workerBody_def stretchPrimitives_fields tc pc nm cp
          preservingConfig_fields check_stretched distortion_stretched workerDecide_def
          sliverAnalysis_fields Let_def)
qed

lemma worker_stretched:
  "simplifyMeshWorker stretchPrimitives sliverPair preservingConfig
     = \<lparr>sr_modified = True, sr_geometry = Some stretchedSliver, sr_accepted = True\<rparr>"
proof -
  have pc: "positionCount sliverPair = Inr 6"
    by (simp add: positionCount_def sliverPair_def)
  have an: "analyzeFeatureSizes (\<lambda>i. 0) 0 (zeroNormals sliverPair) = Inr (sliverAnalysis, 2)"
    using analyze_sliverPair [of "zeroNormals sliverPair" 0]
    by (simp add: zeroNormals_def sliverPair_def)
  have ratio: "workerTargetRatio sliverAnalysis preservingConfig = 23 / 40"
    by (simp add: workerTargetRatio_def sliverAnalysis_fields preservingConfig_fields)
  have pos: "normal sliverPair = None" "groups sliverPair = []"
    by (simp_all add: sliverPair_def)
  show ?thesis
    unfolding simplifyMeshWorker_def
    by (simp add: pc an ratio pos workerDedup_def preservingConfig_fields
          stretchPrimitives_fields preserveMaterialGroups_def workerLoop_unfold
          worker_attempt_stretched workerLoop_successful Let_def)
qed

text \<open>
  C2, as the claim states it, fails. On the same mesh, configuration and primitives the
  two simplifiers decide differently: the candidate is five percent wider than the
  original, which is more than the synchronous threshold 0.01 and less than the worker's
  0.1. The synchronous \<open>simplifyMesh\<close> rejects it and gives up; the worker's accepts it.
\<close>

theorem worker_and_synchronous_simplifier_differ:
  "simplifyMesh stretchPrimitives \<lparr>meshGeometry = Some sliverPair\<rparr> preservingConfig
     = Inr \<lparr>sr_modified = False, sr_geometry = Some (zeroNormals sliverPair),
            sr_accepted = False\<rparr>
   \<and> simplifyMeshWorker stretchPrimitives sliverPair preservingConfig
     = \<lparr>sr_modified = True, sr_geometry = Some stretchedSliver, sr_accepted = True\<rparr>"
  using sync_stretched worker_stretched by simp

lemma js_gt_weaken: "js_gt x (Num t) \<Longrightarrow> t' \<le> t \<Longrightarrow> js_gt x (Num t')"
  by (cases x) simp_all

lemma axisDistorted_weaken:
  "axisDistorted t a b \<Longrightarrow> t' \<le> t \<Longrightarrow> axisDistorted t' a b"
  unfolding axisDistorted_def by (rule js_gt_weaken)

lemma distorted_weaken: "distorted t a b \<Longrightarrow> t' \<le> t \<Longrightarrow> distorted t' a b"
  by (auto simp: distorted_def split: prod.splits dest: axisDistorted_weaken)

lemma workerDistortion_sync: "workerDistortion ma c og \<Longrightarrow> syncDistortion ma c og"
  unfolding workerDistortion_def syncDistortion_def Let_def
  by (rule distorted_weaken) (auto split: if_splits)

text \<open>
  C2 (amended). The worker's simplifier runs the retry loop with constants of its own, so
  its decisions are not those of the synchronous simplifier. For the same mesh analysis,
  candidate and feature analysis its quality gate is the weaker one: a candidate without
  distortion for the synchronous thresholds (0.01 and 0.02) has none for the worker's
  (0.1 and 0.15); a candidate that the synchronous decision accepts (feature-loss
  thresholds 0.1 and 0.15, fewer vertices than the best so far) is accepted by the
  worker's decision (0.5 and 0.6); and for a simplification ratio that is not negative
  the worker's first target ratio (factors 0.85, 0.95, 0.98, floor 0.1) is at most the
  synchronous one (factors 0.15, 0.3, 0.7, floor 0.6).
\<close>

theorem worker_gate_is_weaker:
  "(\<not> syncDistortion ma c og \<longrightarrow> \<not> workerDistortion ma c og)
   \<and> (\<not> ls_successful st
        \<and> ls_successful (stepState (syncDecide ma (syncDistortion ma c og) fa c n st))
      \<longrightarrow> ls_successful (stepState (workerDecide ma (workerDistortion ma c og) fa c n st)))
   \<and> (0 \<le> simplificationRatio cfg \<longrightarrow> workerTargetRatio ma cfg \<le> syncTargetRatio ma cfg)"
proof (intro conjI impI)
  assume "\<not> syncDistortion ma c og"
  then show "\<not> workerDistortion ma c og"
    using workerDistortion_sync by blast
next
  assume a: "\<not> ls_successful st
      \<and> ls_successful (stepState (syncDecide ma (syncDistortion ma c og) fa c n st))"
  then have nd: "\<not> syncDistortion ma c og"
    and loss: "\<not> (if isHighDetail ma then 0.1 else 0.15) < lossRatio fa"
    and cnt: "n < ls_bestCount st"
    by (auto simp: syncDecide_def Let_def split: if_splits)
  from nd have nw: "\<not> workerDistortion ma c og"
    using workerDistortion_sync by blast
  from loss have wloss: "\<not> (if isHighDetail ma then 0.5 else 0.6) < lossRatio fa"
    by (auto split: if_splits)
  show "ls_successful (stepState (workerDecide ma (workerDistortion ma c og) fa c n st))"
    using nw wloss cnt by (simp add: workerDecide_def Let_def)
next
  assume "0 \<le> simplificationRatio cfg"
  then show "workerTargetRatio ma cfg \<le> syncTargetRatio ma cfg"
    by (auto simp: workerTargetRatio_def syncTargetRatio_def Let_def max_def)
qed

theorem worker_gate_is_weaker_witness:
  "\<not> syncDistortion sliverAnalysis sliverCreased sliverPair
   \<and> \<not> workerDistortion sliverAnalysis sliverCreased sliverPair
   \<and> \<not> ls_successful firstAttempt
   \<and> ls_successful (stepState (syncDecide sliverAnalysis
         (syncDistortion sliverAnalysis sliverCreased sliverPair)
         (compareFeatures sliverAnalysis sliverAnalysis) sliverCreased 3 firstAttempt))
   \<and> ls_successful (stepState (workerDecide sliverAnalysis
         (workerDistortion sliverAnalysis sliverCreased sliverPair)
         (compareFeatures sliverAnalysis sliverAnalysis) sliverCreased 3 firstAttempt))
   \<and> 0 \<le> simplificationRatio simplifyConfig
   \<and> workerTargetRatio sliverAnalysis simplifyConfig \<le> syncTargetRatio sliverAnalysis simplifyConfig"
proof -
  have h2: "\<not> ls_successful firstAttempt"
    by (simp add: firstAttempt_def)
  have h3: "ls_successful (stepState (syncDecide sliverAnalysis
         (syncDistortion sliverAnalysis sliverCreased sliverPair)
         (compareFeatures sliverAnalysis sliverAnalysis) sliverCreased 3 firstAttempt))"
  proof -
    have "lossRatio (compareFeatures sliverAnalysis sliverAnalysis) = 0"
      by (simp add: compareFeatures_def sliverAnalysis_def Let_def)
    then show ?thesis
      by (simp add: no_distortion_sliver syncDecide_def sliverAnalysis_fields
            firstAttempt_def Let_def)
  qed
  have h4: "0 \<le> simplificationRatio simplifyConfig"
    by (simp add: simplifyConfig_fields)
  note gate = worker_gate_is_weaker
         [of sliverAnalysis sliverCreased sliverPair firstAttempt
             "compareFeatures sliverAnalysis sliverAnalysis" 3 simplifyConfig]
  from gate no_distortion_sliver
  have w1: "\<not> workerDistortion sliverAnalysis sliverCreased sliverPair"
    by blast
  from gate h2 h3
  have w2: "ls_successful (stepState (workerDecide sliverAnalysis
         (workerDistortion sliverAnalysis sliverCreased sliverPair)
         (compareFeatures sliverAnalysis sliverAnalysis) sliverCreased 3 firstAttempt))"
    by blast
  from gate h4
  have w3: "workerTargetRatio sliverAnalysis simplifyConfig
              \<le> syncTargetRatio sliverAnalysis simplifyConfig"
    by blast
  show ?thesis
    by (intro conjI no_distortion_sliver w1 h2 h3 w2 h4 w3)
qed

section \<open>Creased normals: the passes of toCreasedNormals\<close>

lemma faceStep_ok:
  assumes "face_ok ps ixo f" and "length (vertexFaces st) = length ps"
  shows "\<exists>st'. faceStep ps ixo f st = Inr st'
           \<and> faceNormals st' = faceNormals st @ [faceNormalAt ps ixo f]
           \<and> length (vertexFaces st') = length ps
           \<and> (\<forall>v < length ps. vertexFaces st' ! v
                 = vertexFaces st ! v @ map (\<lambda>k. f) (cornersAt ixo v f))"
proof -
  from assms(1) obtain a b c where
    a: "corner ixo f 0 = Some a" "a < length ps" and
    b: "corner ixo f 1 = Some b" "b < length ps" and
    c: "corner ixo f 2 = Some c" "c < length ps"
    unfolding face_ok_def
    by (metis One_nat_def Suc_1 lessI numeral_3_eq_3 zero_less_Suc less_SucI)
  let ?vf1 = "(vertexFaces st)[a := vertexFaces st ! a @ [f]]"
  let ?vf2 = "?vf1[b := ?vf1 ! b @ [f]]"
  let ?vf3 = "?vf2[c := ?vf2 ! c @ [f]]"
  let ?st' = "\<lparr>faceNormals = faceNormals st @ [faceNormalAt ps ixo f], vertexFaces = ?vf3\<rparr>"
  have step: "faceStep ps ixo f st = Inr ?st'"
    using a b c by (simp add: faceStep_def faceNormalAt_def Let_def)
  have pt: "?vf3 ! v = vertexFaces st ! v @ map (\<lambda>k. f) (cornersAt ixo v f)"
    if "v < length ps" for v
    using that a b c assms(2)
    by (auto simp: cornersAt_def nth_list_update)
  show ?thesis
    using step pt assms(2) by (intro exI [of _ ?st']) simp
qed

lemma facePass_ok:
  assumes "\<forall>f \<in> set fs. face_ok ps ixo f" and "length (vertexFaces st) = length ps"
  shows "\<exists>st'. facePass ps ixo fs st = Inr st'
           \<and> faceNormals st' = faceNormals st @ map (faceNormalAt ps ixo) fs
           \<and> length (vertexFaces st') = length ps
           \<and> (\<forall>v < length ps. vertexFaces st' ! v = vertexFaces st ! v @ incidentFaces ixo fs v)"
  using assms
proof (induction fs arbitrary: st)
  case Nil
  then show ?case by (simp add: incidentFaces_def)
next
  case (Cons f fs)
  from Cons.prems have "face_ok ps ixo f" by simp
  from faceStep_ok [OF this Cons.prems(2)] obtain st1 where
    s1: "faceStep ps ixo f st = Inr st1"
    and n1: "faceNormals st1 = faceNormals st @ [faceNormalAt ps ixo f]"
    and l1: "length (vertexFaces st1) = length ps"
    and v1: "\<forall>v < length ps. vertexFaces st1 ! v
                 = vertexFaces st ! v @ map (\<lambda>k. f) (cornersAt ixo v f)"
    by blast
  from Cons.prems have "\<forall>f \<in> set fs. face_ok ps ixo f" by simp
  from Cons.IH [OF this l1] obtain st' where
    s2: "facePass ps ixo fs st1 = Inr st'"
    and n2: "faceNormals st' = faceNormals st1 @ map (faceNormalAt ps ixo) fs"
    and l2: "length (vertexFaces st') = length ps"
    and v2: "\<forall>v < length ps. vertexFaces st' ! v = vertexFaces st1 ! v @ incidentFaces ixo fs v"
    by blast
  show ?case
    using s1 s2 n1 n2 l2 v1 v2 by (simp add: incidentFaces_def)
qed

lemma addNormal_rel:
  assumes "group_rel gs cs"
  shows "group_rel (addNormal cd n gs) (joinCluster cd n cs)"
  using assms
proof (induction gs arbitrary: cs)
  case Nil
  then show ?case by (simp add: group_rel_def)
next
  case (Cons g gs)
  from Cons.prems have m: "map normals (g # gs) = cs"
    and all: "\<forall>h \<in> set (g # gs). normals h \<noteq> [] \<and> reference h = hd (normals h)"
    unfolding group_rel_def by blast+
  define c where "c = normals g"
  define cs' where "cs' = map normals gs"
  have cs: "cs = c # cs'" and c: "normals g = c"
    using m by (simp_all add: c_def cs'_def)
  have rest: "group_rel gs cs'"
    using all by (simp add: group_rel_def cs'_def)
  have g: "normals g \<noteq> []" "reference g = hd (normals g)"
    using all by simp_all
  from Cons.IH [OF rest] have ih: "group_rel (addNormal cd n gs) (joinCluster cd n cs')" .
  show ?case
  proof (cases "cd < vdot n (reference g)")
    case True
    then have l: "addNormal cd n (g # gs) = g\<lparr>normals := normals g @ [n]\<rparr> # gs"
      by simp
    have r: "joinCluster cd n cs = (c @ [n]) # cs'"
      using True cs c g by simp
    have hd: "hd (normals g @ [n]) = hd (normals g)"
      using g(1) by simp
    show ?thesis
      unfolding l r using rest c g hd by (simp add: group_rel_def)
  next
    case False
    then have l: "addNormal cd n (g # gs) = g # addNormal cd n gs"
      by simp
    have r: "joinCluster cd n cs = c # joinCluster cd n cs'"
      using False cs c g by simp
    show ?thesis
      unfolding l r using ih c g by (simp add: group_rel_def)
  qed
qed

lemma groupNormals_rel: "group_rel (groupNormals cd ns) (greedyClusters cd ns)"
proof -
  have "group_rel gs cs \<Longrightarrow>
        group_rel (fold (addNormal cd) ns gs) (foldl (\<lambda>cs n. joinCluster cd n cs) cs ns)"
    for gs cs
    by (induction ns arbitrary: gs cs) (simp_all add: addNormal_rel)
  from this [of "[]" "[]"] show ?thesis
    by (simp add: groupNormals_def greedyClusters_def group_rel_def)
qed

lemma addNormal_nonempty: "addNormal cd n gs \<noteq> []"
  by (cases gs) simp_all

lemma groupNormals_nonempty: "ns \<noteq> [] \<Longrightarrow> groupNormals cd ns \<noteq> []"
proof -
  have "gs \<noteq> [] \<Longrightarrow> fold (addNormal cd) ms gs \<noteq> []" for ms gs
    by (induction ms arbitrary: gs) (simp_all add: addNormal_nonempty)
  moreover assume "ns \<noteq> []"
  then obtain n ms where "ns = n # ms" by (cases ns) auto
  ultimately show ?thesis
    by (simp add: groupNormals_def addNormal_nonempty)
qed

lemma dominant_fold:
  assumes "firstLargest (normals d) (map normals xs)" and "d \<in> set xs"
  shows "firstLargest
           (normals (fold (\<lambda>g dominant. if length (normals dominant) < length (normals g)
                                        then g else dominant) ys d))
           (map normals (xs @ ys))
         \<and> fold (\<lambda>g dominant. if length (normals dominant) < length (normals g)
                                then g else dominant) ys d \<in> set (xs @ ys)"
  using assms
proof (induction ys arbitrary: xs d)
  case Nil
  then show ?case by simp
next
  case (Cons y ys)
  let ?d' = "if length (normals d) < length (normals y) then y else d"
  have "firstLargest (normals ?d') (map normals (xs @ [y])) \<and> ?d' \<in> set (xs @ [y])"
  proof (cases "length (normals d) < length (normals y)")
    case True
    from Cons.prems(1) have all: "\<forall>j < length xs. length (normals (xs ! j)) \<le> length (normals d)"
      by (auto simp: firstLargest_def)
    have "firstLargest (normals y) (map normals (xs @ [y]))"
      unfolding firstLargest_def
    proof (intro exI [of _ "length xs"] conjI allI impI)
      show "length xs < length (map normals (xs @ [y]))" by simp
      show "map normals (xs @ [y]) ! length xs = normals y" by (simp add: nth_append)
      show "length (map normals (xs @ [y]) ! j) \<le> length (normals y)"
        if "j < length (map normals (xs @ [y]))" for j
        using that all True by (cases "j < length xs") (auto simp: nth_append less_Suc_eq)
      show "length (map normals (xs @ [y]) ! j) < length (normals y)" if "j < length xs" for j
        using that all True by (auto simp: nth_append)
    qed
    with True show ?thesis by simp
  next
    case False
    from Cons.prems(1) obtain i where i: "i < length xs" "map normals xs ! i = normals d"
      and all: "\<forall>j < length xs. length (normals (xs ! j)) \<le> length (normals d)"
      and before: "\<forall>j < i. length (map normals xs ! j) < length (normals d)"
      by (auto simp: firstLargest_def)
    have "firstLargest (normals d) (map normals (xs @ [y]))"
      unfolding firstLargest_def
    proof (intro exI [of _ i] conjI allI impI)
      show "i < length (map normals (xs @ [y]))" using i by simp
      show "map normals (xs @ [y]) ! i = normals d" using i by (simp add: nth_append)
      show "length (map normals (xs @ [y]) ! j) \<le> length (normals d)"
        if "j < length (map normals (xs @ [y]))" for j
        using that all False by (cases "j < length xs") (auto simp: nth_append less_Suc_eq)
      show "length (map normals (xs @ [y]) ! j) < length (normals d)" if "j < i" for j
        using that before i by (auto simp: nth_append)
    qed
    with False Cons.prems(2) show ?thesis by simp
  qed
  then have fl: "firstLargest (normals ?d') (map normals (xs @ [y]))"
    and mem: "?d' \<in> set (xs @ [y])" by blast+
  from Cons.IH [OF fl mem] show ?case by simp
qed

lemma dominantGroup_firstLargest:
  "firstLargest (normals (dominantGroup g (g # gs))) (map normals (g # gs))"
  "dominantGroup g (g # gs) \<in> set (g # gs)"
proof -
  have start: "firstLargest (normals g) (map normals [g])"
    by (simp add: firstLargest_def)
  from dominant_fold [OF start, of gs]
  show "firstLargest (normals (dominantGroup g (g # gs))) (map normals (g # gs))"
    and "dominantGroup g (g # gs) \<in> set (g # gs)"
    by (simp_all add: dominantGroup_def)
qed

lemma fold_vadd:
  "fold (\<lambda>n avg. vadd avg n) ns (x, y, z)
     = (x + sum_list (map fst ns), y + sum_list (map (\<lambda>n. fst (snd n)) ns),
        z + sum_list (map (\<lambda>n. snd (snd n)) ns))"
  by (induction ns arbitrary: x y z) (auto simp: vadd_def split: prod.splits)

lemma vlength_scaled:
  assumes "0 < m"
  shows "vlength (x / m, y / m, z / m) = vlength (x, y, z) / m"
proof -
  have "(x / m) * (x / m) + (y / m) * (y / m) + (z / m) * (z / m)
          = (x * x + y * y + z * z) / (m * m)"
    by (simp add: add_divide_distrib)
  moreover have "sqrt (m * m) = m"
    using assms by simp
  ultimately show ?thesis
    by (simp add: vlength_def real_sqrt_divide)
qed

lemma vnormalize_scaled:
  assumes "0 < m"
  shows "vnormalize (x / m, y / m, z / m) = vnormalize (x, y, z)"
proof (cases "vlength (x, y, z) = 0")
  case True
  then have "x * x + y * y + z * z = 0"
    by (simp add: vlength_def)
  then have "x = 0 \<and> y = 0 \<and> z = 0"
    by (smt (verit) mult_nonneg_nonneg mult_nonpos_nonpos zero_le_square
          add_nonneg_eq_0_iff mult_eq_0_iff add_nonneg_nonneg)
  then show ?thesis by simp
next
  case False
  with assms show ?thesis
    by (simp add: vnormalize_def vlength_scaled Let_def)
qed

lemma averageNormal_clusterAverage:
  assumes "c \<noteq> []"
  shows "averageNormal c = vnormalize (clusterAverage c)"
proof -
  have "0 < real (length c)" using assms by simp
  from vnormalize_scaled [OF this] show ?thesis
    by (simp add: averageNormal_def clusterAverage_def fold_vadd)
qed

lemma vertexNormal_largest:
  assumes "ns \<noteq> []"
  shows "\<exists>c. firstLargest c (greedyClusters cd ns)
           \<and> vertexNormal cd ns = vnormalize (clusterAverage c)"
proof -
  from groupNormals_nonempty [OF assms, of cd] obtain g gs where
    gg: "groupNormals cd ns = g # gs" by (cases "groupNormals cd ns") auto
  have rel: "group_rel (g # gs) (greedyClusters cd ns)"
    using groupNormals_rel [of cd ns] gg by simp
  then have cs: "map normals (g # gs) = greedyClusters cd ns"
    and ne: "\<forall>h \<in> set (g # gs). normals h \<noteq> []"
    by (auto simp: group_rel_def)
  let ?d = "dominantGroup g (g # gs)"
  have fl: "firstLargest (normals ?d) (greedyClusters cd ns)"
    using dominantGroup_firstLargest(1) [of g gs] cs by simp
  have "normals ?d \<noteq> []"
    using ne dominantGroup_firstLargest(2) [of g gs] by blast
  then have "vertexNormal cd ns = vnormalize (clusterAverage (normals ?d))"
    using gg by (simp add: vertexNormal_def averageNormal_clusterAverage)
  with fl show ?thesis by blast
qed

lemma ceiling_third:
  assumes "n mod 3 = 0"
  shows "nat \<lceil>real n / 3\<rceil> = n div 3"
proof -
  from assms have "3 dvd n" by presburger
  then obtain q where "n = 3 * q" by (auto elim: dvdE)
  then show ?thesis by simp
qed

lemma wellFormed_faces:
  assumes "wellFormedGeometry g" and "position g = Some ps"
  shows "\<forall>f \<in> set [0 ..< faceIterations ps (index g)]. face_ok ps (index g) f"
proof (cases "index g")
  case None
  with assms have m: "length ps mod 3 = 0"
    by (simp add: wellFormedGeometry_def)
  have n: "faceIterations ps (index g) = length ps div 3"
    using None ceiling_third [OF m] by (simp add: faceIterations_def triangleCount_def)
  show ?thesis
    unfolding n using None m
    by (auto simp: face_ok_def corner_def)
next
  case (Some ix)
  with assms have m: "length ix mod 3 = 0" and r: "list_all (\<lambda>i. i < length ps) ix"
    by (simp_all add: wellFormedGeometry_def)
  have n: "faceIterations ps (index g) = length ix div 3"
    using Some ceiling_third [OF m] by (simp add: faceIterations_def triangleCount_def)
  have inr: "f * 3 + k < length ix" if "f < length ix div 3" "k < 3" for f k
    using that m by presburger
  show ?thesis
    unfolding n using Some r inr
    by (auto simp: face_ok_def corner_def list_all_length)
qed

lemma incidentFaces_members: "f \<in> set (incidentFaces ixo fs v) \<Longrightarrow> f \<in> set fs"
  by (auto simp: incidentFaces_def)

text \<open>
  C8. For every well-formed geometry \<open>toCreasedNormals\<close> returns the geometry with a
  normal for each vertex, and every vertex that belongs to at least one triangle gets
  the normalized average of the largest cluster of its incident face normals, the
  clusters being built greedily: each face normal joins the first cluster whose reference
  has a dot product with it above \<open>cos(creaseAngle)\<close> (the angle in degrees), and starts
  a new cluster, with itself as reference, when there is none. Among clusters of equal
  size the first counts as the largest; a triangle contributes its normal once for each
  of its corners at the vertex.
\<close>

theorem toCreasedNormals_largest_cluster:
  assumes "wellFormedGeometry g"
  shows "\<exists>g' ps ns. position g = Some ps
           \<and> toCreasedNormals g creaseAngle = Inr g'
           \<and> position g' = Some ps
           \<and> normal g' = Some ns
           \<and> length ns = length ps
           \<and> (\<forall>v < length ps. incidentFaceNormals ps (index g) v \<noteq> [] \<longrightarrow>
                 (\<exists>c. firstLargest c
                         (greedyClusters (cos ((creaseAngle * pi) / 180))
                            (incidentFaceNormals ps (index g) v))
                      \<and> ns ! v = vnormalize (clusterAverage c)))"
proof -
  from assms obtain ps where ps: "position g = Some ps"
    by (auto simp: wellFormedGeometry_def split: option.splits)
  let ?n = "faceIterations ps (index g)"
  let ?cd = "cos ((creaseAngle * pi) / 180)"
  let ?init = "\<lparr>faceNormals = [], vertexFaces = replicate (length ps) []\<rparr>"
  have ok: "\<forall>f \<in> set [0 ..< ?n]. face_ok ps (index g) f"
    using assms ps by (rule wellFormed_faces)
  have len0: "length (vertexFaces ?init) = length ps" by simp
  from facePass_ok [OF ok len0] obtain fp where
    fp: "facePass ps (index g) [0 ..< ?n] ?init = Inr fp"
    and fn: "faceNormals fp = map (faceNormalAt ps (index g)) [0 ..< ?n]"
    and len: "length (vertexFaces fp) = length ps"
    and vf: "\<forall>v < length ps. vertexFaces fp ! v = incidentFaces (index g) [0 ..< ?n] v"
    by auto
  let ?ns = "map (\<lambda>vertexFaceNormals. if vertexFaceNormals = [] then (0, 0, 0)
                                       else vertexNormal ?cd vertexFaceNormals)
               (map (\<lambda>faces. map (\<lambda>faceIdx. faceNormals fp ! faceIdx) faces) (vertexFaces fp))"
  have res: "toCreasedNormals g creaseAngle = Inr (g\<lparr>normal := Some ?ns\<rparr>)"
    using ps fp by (simp add: toCreasedNormals_def Let_def)
  have pv: "?ns ! v = vnormalize (clusterAverage c) \<and> firstLargest c
               (greedyClusters ?cd (incidentFaceNormals ps (index g) v))" 
    if v: "v < length ps" and ne: "incidentFaceNormals ps (index g) v \<noteq> []"
    and c: "firstLargest c (greedyClusters ?cd (incidentFaceNormals ps (index g) v))"
           "vertexNormal ?cd (incidentFaceNormals ps (index g) v) = vnormalize (clusterAverage c)"
    for v c
  proof -
    have "map (\<lambda>faceIdx. faceNormals fp ! faceIdx) (vertexFaces fp ! v)
            = incidentFaceNormals ps (index g) v"
      using vf v fn incidentFaces_members [of _ "index g" "[0 ..< ?n]" v]
      by (auto simp: incidentFaceNormals_def)
    then show ?thesis
      using v len ne c by simp
  qed
  have "\<forall>v < length ps. incidentFaceNormals ps (index g) v \<noteq> [] \<longrightarrow>
          (\<exists>c. firstLargest c (greedyClusters ?cd (incidentFaceNormals ps (index g) v))
               \<and> ?ns ! v = vnormalize (clusterAverage c))"
  proof (intro allI impI)
    fix v assume v: "v < length ps" and ne: "incidentFaceNormals ps (index g) v \<noteq> []"
    from vertexNormal_largest [OF ne, of ?cd] obtain c where
      c: "firstLargest c (greedyClusters ?cd (incidentFaceNormals ps (index g) v))"
         "vertexNormal ?cd (incidentFaceNormals ps (index g) v) = vnormalize (clusterAverage c)"
      by blast
    from pv [OF v ne c] show "\<exists>c. firstLargest c
          (greedyClusters ?cd (incidentFaceNormals ps (index g) v))
          \<and> ?ns ! v = vnormalize (clusterAverage c)"
      by blast
  qed
  then show ?thesis
    using ps res len by (intro exI [of _ "g\<lparr>normal := Some ?ns\<rparr>"] exI [of _ ps] exI [of _ ?ns]) simp
qed

theorem toCreasedNormals_largest_cluster_witness:
  "wellFormedGeometry quadGeometry
   \<and> (\<exists>g' ps ns. position quadGeometry = Some ps
          \<and> toCreasedNormals quadGeometry 3 = Inr g'
          \<and> position g' = Some ps
          \<and> normal g' = Some ns
          \<and> length ns = length ps
          \<and> (\<forall>v < length ps. incidentFaceNormals ps (index quadGeometry) v \<noteq> [] \<longrightarrow>
                (\<exists>c. firstLargest c
                        (greedyClusters (cos ((3 * pi) / 180))
                           (incidentFaceNormals ps (index quadGeometry) v))
                     \<and> ns ! v = vnormalize (clusterAverage c))))"
proof -
  have wf: "wellFormedGeometry quadGeometry"
    by (simp add: wellFormedGeometry_def quadGeometry_def)
  from toCreasedNormals_largest_cluster [OF wf, of 3] show ?thesis
    using wf by blast
qed

end
